theory Spec2Isabelle
  imports Complex_Main
begin

section \<open>Ray-primitive intersection tests of \<^verbatim>\<open>src/intersections.h\<close>\<close>

text \<open>
  The three testers (\<^verbatim>\<open>boxIntersectionTest\<close>, \<^verbatim>\<open>sphereIntersectionTest\<close>,
  \<^verbatim>\<open>triangleInteractionTest\<close>) and the helpers they call are embedded as HOL functions.

  Numbers. A \<^verbatim>\<open>float\<close> is read as an exact real: rounding, overflow and the sign of
  zero are outside the model. The one quotient whose divisor is zero by design (the slab
  loop of the box tester divides by a direction component with the guard commented out)
  is modelled with the IEEE special values: the slab bounds are values of \<open>xreal\<close>.
  Every other quotient (normalising a vector, dividing by the triangle area) is the real
  quotient. Where the program would divide by zero there, it computes NaN, and the NaN
  reaches the returned distance or the written normal; a theorem whose conclusion such a
  NaN would affect assumes that the quantity is defined (a normal of length 1, a
  triangle of non-zero area, a direction that the forward transform does not collapse).

  GLM is a library outside the sources; its operations are given their documented
  meaning, and \<^verbatim>\<open>glm::intersectRayTriangle\<close> is a parameter of the triangle tester.

  Output parameters. The testers write through the references \<^verbatim>\<open>intersectionPoint\<close>,
  \<^verbatim>\<open>normal\<close> and \<^verbatim>\<open>outside\<close>. The model passes the caller's values in as a record
  \<open>outs\<close> and returns the record as the tester leaves it, beside the returned distance.
\<close>

subsection \<open>Vectors and matrices (the GLM operations the source uses)\<close>

datatype vec3 = Vec3 (vx: real) (vy: real) (vz: real)

datatype vec4 = Vec4 (wx: real) (wy: real) (wz: real) (ww: real)

text \<open>A \<^verbatim>\<open>glm::mat4\<close> is four columns; \<^verbatim>\<open>m[c]\<close> is column \<open>c\<close>.\<close>

datatype mat4 = Mat4 (col0: vec4) (col1: vec4) (col2: vec4) (col3: vec4)

instantiation vec3 :: ab_group_add
begin

definition zero_vec3 :: vec3 where
  "zero_vec3 = Vec3 0 0 0"

definition plus_vec3 :: "vec3 \<Rightarrow> vec3 \<Rightarrow> vec3" where
  "plus_vec3 a b = Vec3 (vx a + vx b) (vy a + vy b) (vz a + vz b)"

definition minus_vec3 :: "vec3 \<Rightarrow> vec3 \<Rightarrow> vec3" where
  "minus_vec3 a b = Vec3 (vx a - vx b) (vy a - vy b) (vz a - vz b)"

definition uminus_vec3 :: "vec3 \<Rightarrow> vec3" where
  "uminus_vec3 a = Vec3 (- vx a) (- vy a) (- vz a)"

instance
  by standard (simp_all add: zero_vec3_def plus_vec3_def minus_vec3_def uminus_vec3_def)

end

text \<open>\<^verbatim>\<open>s * v\<close> and \<^verbatim>\<open>v / s\<close> for a scalar \<open>s\<close>.\<close>

definition smul :: "real \<Rightarrow> vec3 \<Rightarrow> vec3" where
  "smul s v = Vec3 (s * vx v) (s * vy v) (s * vz v)"

definition sdiv :: "vec3 \<Rightarrow> real \<Rightarrow> vec3" where
  "sdiv v s = Vec3 (vx v / s) (vy v / s) (vz v / s)"

text \<open>\<^verbatim>\<open>v[i]\<close> read and written, for the indices 0, 1, 2 the loop uses.\<close>

definition vidx :: "vec3 \<Rightarrow> nat \<Rightarrow> real" where
  "vidx v i = (if i = 0 then vx v else if i = 1 then vy v else vz v)"

definition vset :: "vec3 \<Rightarrow> nat \<Rightarrow> real \<Rightarrow> vec3" where
  "vset v i a =
     (if i = 0 then Vec3 a (vy v) (vz v)
      else if i = 1 then Vec3 (vx v) a (vz v)
      else Vec3 (vx v) (vy v) a)"

definition glm_dot :: "vec3 \<Rightarrow> vec3 \<Rightarrow> real" where
  "glm_dot a b = vx a * vx b + vy a * vy b + vz a * vz b"

definition glm_cross :: "vec3 \<Rightarrow> vec3 \<Rightarrow> vec3" where
  "glm_cross a b =
     Vec3 (vy a * vz b - vy b * vz a)
          (vz a * vx b - vz b * vx a)
          (vx a * vy b - vx b * vy a)"

definition glm_length :: "vec3 \<Rightarrow> real" where
  "glm_length v = sqrt (glm_dot v v)"

text \<open>\<^verbatim>\<open>glm::normalize(v)\<close> is \<^verbatim>\<open>v * inversesqrt(dot(v, v))\<close>.\<close>

definition glm_normalize :: "vec3 \<Rightarrow> vec3" where
  "glm_normalize v = smul (1 / sqrt (glm_dot v v)) v"

text \<open>\<^verbatim>\<open>glm::vec4(v, w)\<close>, \<^verbatim>\<open>m * v\<close> (the linear combination of the columns) and
  \<^verbatim>\<open>glm::vec3(v4)\<close>, which drops the fourth component.\<close>

definition vec4of :: "vec3 \<Rightarrow> real \<Rightarrow> vec4" where
  "vec4of v w = Vec4 (vx v) (vy v) (vz v) w"

definition mat_mul_vec :: "mat4 \<Rightarrow> vec4 \<Rightarrow> vec4" where
  "mat_mul_vec m v =
     Vec4 (wx (col0 m) * wx v + wx (col1 m) * wy v + wx (col2 m) * wz v + wx (col3 m) * ww v)
          (wy (col0 m) * wx v + wy (col1 m) * wy v + wy (col2 m) * wz v + wy (col3 m) * ww v)
          (wz (col0 m) * wx v + wz (col1 m) * wy v + wz (col2 m) * wz v + wz (col3 m) * ww v)
          (ww (col0 m) * wx v + ww (col1 m) * wy v + ww (col2 m) * wz v + ww (col3 m) * ww v)"

definition vec3of :: "vec4 \<Rightarrow> vec3" where
  "vec3of v = Vec3 (wx v) (wy v) (wz v)"

subsection \<open>Scene structures\<close>

text \<open>
  Modelled from the spec: the declarations of \<^verbatim>\<open>Ray\<close> and \<^verbatim>\<open>Geom\<close> are in
  \<^verbatim>\<open>sceneStructs.h\<close>, which is not among the sources. A ray is an origin and a direction
  (not necessarily normalised). A primitive carries the forward transform, its inverse
  and the inverse-transpose; the records have these fields under the names the testers
  use. The shape discriminator and the material of a primitive are not read by the
  testers and are left out.
\<close>

record Ray =
  origin :: vec3
  direction :: vec3

record Geom =
  transform :: mat4
  inverseTransform :: mat4
  invTranspose :: mat4

text \<open>The three output references of a tester.\<close>

record outs =
  intersectionPoint :: vec3
  normal :: vec3
  outside :: bool

subsection \<open>Helpers\<close>

definition getPointOnRay :: "Ray \<Rightarrow> real \<Rightarrow> vec3" where
  "getPointOnRay r t = origin r + smul (t - 0.0001) (glm_normalize (direction r))"

definition multiplyMV :: "mat4 \<Rightarrow> vec4 \<Rightarrow> vec3" where
  "multiplyMV m v = vec3of (mat_mul_vec m v)"

subsection \<open>Slab bounds with the IEEE special values\<close>

datatype xreal = Fin real | PInf | MInf | NaN

text \<open>\<^verbatim>\<open>a / b\<close> on floats: a zero divisor gives an infinity with the sign of \<open>a\<close>, or NaN
  for \<open>0 / 0\<close>. (With a negative zero as divisor the two infinities swap; the slab step
  below then sets the same bounds or reports the same miss.)\<close>

definition fdiv :: "real \<Rightarrow> real \<Rightarrow> xreal" where
  "fdiv a b =
     (if b \<noteq> 0 then Fin (a / b)
      else if 0 < a then PInf
      else if a < 0 then MInf
      else NaN)"

text \<open>\<^verbatim>\<open>x < y\<close> and \<^verbatim>\<open>x <= y\<close>: false as soon as one side is NaN.\<close>

fun xlt :: "xreal \<Rightarrow> xreal \<Rightarrow> bool" where
  "xlt NaN _ = False"
| "xlt _ NaN = False"
| "xlt (Fin a) (Fin b) = (a < b)"
| "xlt (Fin a) PInf = True"
| "xlt (Fin a) MInf = False"
| "xlt MInf MInf = False"
| "xlt MInf _ = True"
| "xlt PInf _ = False"

fun xle :: "xreal \<Rightarrow> xreal \<Rightarrow> bool" where
  "xle NaN _ = False"
| "xle _ NaN = False"
| "xle (Fin a) (Fin b) = (a \<le> b)"
| "xle (Fin a) PInf = True"
| "xle (Fin a) MInf = False"
| "xle MInf _ = True"
| "xle PInf PInf = True"
| "xle PInf _ = False"

text \<open>
  \<^verbatim>\<open>glm::min(x, y)\<close> is \<^verbatim>\<open>x < y ? x : y\<close> and \<^verbatim>\<open>glm::max(x, y)\<close> is
  \<^verbatim>\<open>x > y ? x : y\<close> in the GLM releases before 0.9.9, to which the six-argument
  \<^verbatim>\<open>glm::intersectRayTriangle\<close> of the triangle tester belongs. Later releases compare
  the other way round (\<^verbatim>\<open>(y < x) ? y : x\<close> and \<^verbatim>\<open>(x < y) ? y : x\<close>); the two differ only
  when an argument is NaN.
\<close>

definition glm_min :: "xreal \<Rightarrow> xreal \<Rightarrow> xreal" where
  "glm_min x y = (if xlt x y then x else y)"

definition glm_max :: "xreal \<Rightarrow> xreal \<Rightarrow> xreal" where
  "glm_max x y = (if xlt y x then x else y)"

text \<open>The value of a bound that is passed on as a \<^verbatim>\<open>float\<close>. On the hit path of the box
  tester the bound is finite (lemma \<open>slab_hit_finite\<close> below).\<close>

fun fin_val :: "xreal \<Rightarrow> real" where
  "fin_val (Fin a) = a"
| "fin_val _ = 0"

subsection \<open>The box tester\<close>

text \<open>The variables of the slab loop: \<^verbatim>\<open>tmin\<close>, \<^verbatim>\<open>tmax\<close>, \<^verbatim>\<open>tmin_n\<close>, \<^verbatim>\<open>tmax_n\<close>.\<close>

record slab =
  tmin :: xreal
  tmax :: xreal
  tmin_n :: vec3
  tmax_n :: vec3

text \<open>
  \<^verbatim>\<open>glm::vec3 tmin_n; glm::vec3 tmax_n;\<close> and, in the loop body, \<^verbatim>\<open>glm::vec3 n;\<close> are
  default-constructed and the loop writes one component of \<^verbatim>\<open>n\<close> only. The model takes
  the default vector to be zero (what GLM's default constructor gives before release
  0.9.9, and what the specification's normal \<open>(0, 0, -1)\<close> presumes), so that \<^verbatim>\<open>n\<close> is
  the signed axis vector after \<^verbatim>\<open>n[xyz] = ...\<close>.
\<close>

definition slab_init :: slab where
  "slab_init = \<lparr>tmin = Fin (- (10 ^ 38)), tmax = Fin (10 ^ 38), tmin_n = 0, tmax_n = 0\<rparr>"

text \<open>One iteration of \<^verbatim>\<open>for (int xyz = 0; xyz < 3; ++xyz)\<close>.\<close>

definition slab_axis :: "Ray \<Rightarrow> nat \<Rightarrow> slab \<Rightarrow> slab" where
  "slab_axis q xyz s =
     (let qdxyz = vidx (direction q) xyz;
          t1 = fdiv (- 0.5 - vidx (origin q) xyz) qdxyz;
          t2 = fdiv (0.5 - vidx (origin q) xyz) qdxyz;
          ta = glm_min t1 t2;
          tb = glm_max t1 t2;
          n = vset 0 xyz (if xlt t2 t1 then 1 else - 1);
          s1 = (if xlt (Fin 0) ta \<and> xlt (tmin s) ta then s\<lparr>tmin := ta, tmin_n := n\<rparr> else s);
          s2 = (if xlt tb (tmax s1) then s1\<lparr>tmax := tb, tmax_n := n\<rparr> else s1)
      in s2)"

definition slab_pass :: "Ray \<Rightarrow> slab" where
  "slab_pass q = fold (slab_axis q) [0, 1, 2] slab_init"

text \<open>The ray in object space, as all three testers compute it.\<close>

definition objectRay :: "Geom \<Rightarrow> Ray \<Rightarrow> Ray" where
  "objectRay g r =
     \<lparr>origin = multiplyMV (inverseTransform g) (vec4of (origin r) 1),
      direction = glm_normalize (multiplyMV (inverseTransform g) (vec4of (direction r) 0))\<rparr>"

definition boxIntersectionTest :: "Geom \<Rightarrow> Ray \<Rightarrow> outs \<Rightarrow> real \<times> outs" where
  "boxIntersectionTest box r out =
     (let q = objectRay box r;
          s = slab_pass q
      in if xle (tmin s) (tmax s) \<and> xlt (Fin 0) (tmax s) then
           (let s' = (if xle (tmin s) (Fin 0)
                      then s\<lparr>tmin := tmax s, tmin_n := tmax_n s\<rparr> else s);
                outside' = \<not> xle (tmin s) (Fin 0);
                ip = multiplyMV (transform box) (vec4of (getPointOnRay q (fin_val (tmin s'))) 1);
                nrm = glm_normalize (multiplyMV (invTranspose box) (vec4of (tmin_n s') 0))
            in (glm_length (origin r - ip),
                \<lparr>intersectionPoint = ip, normal = nrm, outside = outside'\<rparr>))
         else (- 1, out))"

subsection \<open>The sphere tester\<close>

definition sphereIntersectionTest :: "Geom \<Rightarrow> Ray \<Rightarrow> outs \<Rightarrow> real \<times> outs" where
  "sphereIntersectionTest sphere r out =
     (let radius = 0.5;
          rt = objectRay sphere r;
          vDotDirection = glm_dot (origin rt) (direction rt);
          radicand = vDotDirection * vDotDirection - (glm_dot (origin rt) (origin rt) - radius ^ 2)
      in if radicand < 0 then (- 1, out)
         else
           (let squareRoot = sqrt radicand;
                firstTerm = - vDotDirection;
                t1 = firstTerm + squareRoot;
                t2 = firstTerm - squareRoot
            in if t1 < 0 \<and> t2 < 0 then (- 1, out)
               else
                 (let (t, outside') = (if t1 > 0 \<and> t2 > 0 then (min t1 t2, True)
                                       else (max t1 t2, False));
                      objspaceIntersection = getPointOnRay rt t;
                      ip = multiplyMV (transform sphere) (vec4of objspaceIntersection 1);
                      nrm = glm_normalize
                              (multiplyMV (invTranspose sphere) (vec4of objspaceIntersection 0));
                      nrm' = (if \<not> outside' then - nrm else nrm)
                  in (glm_length (origin r - ip),
                      \<lparr>intersectionPoint = ip, normal = nrm', outside = outside'\<rparr>))))"

subsection \<open>The triangle tester\<close>

text \<open>
  \<^verbatim>\<open>glm::intersectRayTriangle\<close> belongs to GLM and is a parameter \<open>irt\<close> of the model:
  \<open>irt orig dir v1 v2 v3\<close> is \<open>None\<close> when the call returns false, and \<open>Some b\<close> with
  the vector \<open>b\<close> it leaves in \<^verbatim>\<open>bary_coords\<close> when it returns true.
\<close>

type_synonym ray_triangle = "vec3 \<Rightarrow> vec3 \<Rightarrow> vec3 \<Rightarrow> vec3 \<Rightarrow> vec3 \<Rightarrow> vec3 option"

definition bary_position :: "vec3 \<Rightarrow> vec3 \<Rightarrow> vec3 \<Rightarrow> vec3 \<Rightarrow> vec3" where
  "bary_position b vertex1 vertex2 vertex3 =
     smul (1 - vx b - vy b) vertex1 + smul (vx b) vertex2 + smul (vy b) vertex3"

definition has_normal :: "vec3 \<Rightarrow> vec3 \<Rightarrow> vec3 \<Rightarrow> bool" where
  "has_normal normal1 normal2 normal3 \<longleftrightarrow>
     glm_length normal1 \<noteq> 0 \<and> glm_length normal2 \<noteq> 0 \<and> glm_length normal3 \<noteq> 0"

text \<open>The corner normals \<^verbatim>\<open>n0\<close>, \<^verbatim>\<open>n1\<close>, \<^verbatim>\<open>n2\<close>.\<close>

definition cornerNormals ::
  "vec3 \<Rightarrow> vec3 \<Rightarrow> vec3 \<Rightarrow> vec3 \<Rightarrow> vec3 \<Rightarrow> vec3 \<Rightarrow> vec3 \<times> vec3 \<times> vec3" where
  "cornerNormals vertex1 vertex2 vertex3 normal1 normal2 normal3 =
     (let hn = has_normal normal1 normal2 normal3;
          n0 = (if hn then normal1
                else glm_normalize (glm_cross (vertex2 - vertex1) (vertex3 - vertex1)));
          n1 = (if hn then normal2
                else glm_normalize (glm_cross (vertex1 - vertex2) (vertex3 - vertex2)));
          n2 = (if hn then normal3
                else glm_normalize (glm_cross (vertex1 - vertex3) (vertex2 - vertex3)))
      in (n0, n1, n2))"

text \<open>The area-weighted normal \<^verbatim>\<open>smoothNormal\<close> at the object-space point \<open>p\<close>.\<close>

definition smoothNormal ::
  "vec3 \<Rightarrow> vec3 \<Rightarrow> vec3 \<Rightarrow> vec3 \<Rightarrow> vec3 \<Rightarrow> vec3 \<Rightarrow> vec3 \<Rightarrow> vec3" where
  "smoothNormal p vertex1 vertex2 vertex3 normal1 normal2 normal3 =
     (let (n0, n1, n2) = cornerNormals vertex1 vertex2 vertex3 normal1 normal2 normal3;
          S = 0.5 * glm_length (glm_cross (vertex1 - vertex2) (vertex3 - vertex2));
          S0 = 0.5 * glm_length (glm_cross (vertex2 - p) (vertex3 - p));
          S1 = 0.5 * glm_length (glm_cross (vertex1 - p) (vertex3 - p));
          S2 = 0.5 * glm_length (glm_cross (vertex1 - p) (vertex2 - p))
      in glm_normalize
           (sdiv (smul S0 n0) S + sdiv (smul S1 n1) S + sdiv (smul S2 n2) S))"

definition triangleInteractionTest ::
  "ray_triangle \<Rightarrow> Geom \<Rightarrow> Ray \<Rightarrow> vec3 \<Rightarrow> vec3 \<Rightarrow> vec3 \<Rightarrow> vec3 \<Rightarrow> vec3 \<Rightarrow> vec3 \<Rightarrow> outs
     \<Rightarrow> real \<times> outs" where
  "triangleInteractionTest irt mesh r vertex1 vertex2 vertex3 normal1 normal2 normal3 out =
     (let rt = objectRay mesh r
      in case irt (origin rt) (direction rt) vertex1 vertex2 vertex3 of
           None \<Rightarrow> (- 1, out)
         | Some bary_coords \<Rightarrow>
             (let p = bary_position bary_coords vertex1 vertex2 vertex3;
                  ip = multiplyMV (transform mesh) (vec4of p 1);
                  sn = smoothNormal p vertex1 vertex2 vertex3 normal1 normal2 normal3;
                  nrm = glm_normalize (multiplyMV (invTranspose mesh) (vec4of sn 0));
                  out1 = out\<lparr>intersectionPoint := ip, normal := nrm\<rparr>;
                  out2 = (if glm_dot nrm (direction r) > 0
                          then out1\<lparr>normal := - nrm, outside := False\<rparr> else out1)
              in (glm_length (origin r - ip), out2)))"

subsection \<open>Quantities the specification names\<close>

text \<open>
  The sphere test in the specification's letters: \<open>b = dot(origin, direction)\<close>,
  \<open>c = dot(origin, origin) - radius\<^sup>2\<close>, the discriminant \<open>b\<^sup>2 - c\<close> and the two roots,
  all of the object-space ray. Lemma \<open>sphere_unfold\<close> relates them to the source's
  \<^verbatim>\<open>vDotDirection\<close>, \<^verbatim>\<open>radicand\<close>, \<^verbatim>\<open>t1\<close> and \<^verbatim>\<open>t2\<close>.
\<close>

definition sphere_b :: "Ray \<Rightarrow> real" where
  "sphere_b rt = glm_dot (origin rt) (direction rt)"

definition sphere_c :: "Ray \<Rightarrow> real" where
  "sphere_c rt = glm_dot (origin rt) (origin rt) - 0.5 ^ 2"

definition sphere_disc :: "Ray \<Rightarrow> real" where
  "sphere_disc rt = (sphere_b rt) ^ 2 - sphere_c rt"

definition sphere_t1 :: "Ray \<Rightarrow> real" where
  "sphere_t1 rt = - sphere_b rt + sqrt (sphere_disc rt)"

definition sphere_t2 :: "Ray \<Rightarrow> real" where
  "sphere_t2 rt = - sphere_b rt - sqrt (sphere_disc rt)"

text \<open>\<^verbatim>\<open>glm::transpose\<close>: the rows become the columns. The scene loader keeps
  \<^verbatim>\<open>invTranspose\<close> equal to the transpose of \<^verbatim>\<open>inverseTransform\<close>.\<close>

definition mat_transpose :: "mat4 \<Rightarrow> mat4" where
  "mat_transpose m =
     Mat4 (Vec4 (wx (col0 m)) (wx (col1 m)) (wx (col2 m)) (wx (col3 m)))
          (Vec4 (wy (col0 m)) (wy (col1 m)) (wy (col2 m)) (wy (col3 m)))
          (Vec4 (wz (col0 m)) (wz (col1 m)) (wz (col2 m)) (wz (col3 m)))
          (Vec4 (ww (col0 m)) (ww (col1 m)) (ww (col2 m)) (ww (col3 m)))"

text \<open>The last statement of the triangle tester, as a function of the normal and the
  world-space ray direction.\<close>

definition flip_toward :: "vec3 \<Rightarrow> vec3 \<Rightarrow> vec3" where
  "flip_toward n d = (if glm_dot n d > 0 then - n else n)"

text \<open>
  The object-space parameter \<^verbatim>\<open>t\<close> that the box tester and the sphere tester pass to
  \<^verbatim>\<open>getPointOnRay\<close> on a hit: \<^verbatim>\<open>tmin\<close> after the inside test of the box tester, and the
  root selected by the sphere tester.
\<close>

definition box_t :: "Geom \<Rightarrow> Ray \<Rightarrow> real" where
  "box_t g r =
     (let s = slab_pass (objectRay g r)
      in fin_val (if xle (tmin s) (Fin 0) then tmax s else tmin s))"

definition sphere_t :: "Geom \<Rightarrow> Ray \<Rightarrow> real" where
  "sphere_t g r =
     (let rt = objectRay g r
      in if 0 < sphere_t1 rt \<and> 0 < sphere_t2 rt
         then min (sphere_t1 rt) (sphere_t2 rt) else max (sphere_t1 rt) (sphere_t2 rt))"

text \<open>
  The point of the object-space ray at parameter \<open>t\<close> with no pullback, the world-space
  displacement per unit of that parameter, and the distance from the world-space ray
  origin to the world-space image of the point at \<open>t\<close>: the exact geometric distance to
  the surface when \<open>t\<close> is the hit parameter.
\<close>

definition surface_point :: "Ray \<Rightarrow> real \<Rightarrow> vec3" where
  "surface_point q t = origin q + smul t (glm_normalize (direction q))"

definition world_step :: "Geom \<Rightarrow> Ray \<Rightarrow> vec3" where
  "world_step g r =
     multiplyMV (transform g) (vec4of (glm_normalize (direction (objectRay g r))) 0)"

definition exact_distance :: "Geom \<Rightarrow> Ray \<Rightarrow> real \<Rightarrow> real" where
  "exact_distance g r t =
     glm_length (origin r -
       multiplyMV (transform g) (vec4of (surface_point (objectRay g r) t) 1))"

subsection \<open>Invariants of the slab loop\<close>

text \<open>\<^verbatim>\<open>tmax\<close> only ever decreases and \<^verbatim>\<open>tmin\<close> only takes positive values.\<close>

definition slab_bounds_ok :: "slab \<Rightarrow> bool" where
  "slab_bounds_ok s \<longleftrightarrow>
     tmax s \<noteq> PInf \<and> tmax s \<noteq> NaN \<and> tmin s \<noteq> MInf \<and> tmin s \<noteq> NaN"

text \<open>A state from which the hit test after the loop can no longer succeed.\<close>

definition slab_dead :: "slab \<Rightarrow> bool" where
  "slab_dead s \<longleftrightarrow> tmax s = MInf \<or> tmin s = PInf"

text \<open>Both recorded face normals point against the object-space direction.\<close>

definition faces_ray :: "Ray \<Rightarrow> slab \<Rightarrow> bool" where
  "faces_ray q s \<longleftrightarrow>
     glm_dot (tmin_n s) (direction q) \<le> 0 \<and> glm_dot (tmax_n s) (direction q) \<le> 0"

subsection \<open>Fixtures for the concrete examples\<close>

definition mat_identity :: mat4 where
  "mat_identity = Mat4 (Vec4 1 0 0 0) (Vec4 0 1 0 0) (Vec4 0 0 1 0) (Vec4 0 0 0 1)"

text \<open>A primitive at the identity transform.\<close>

definition identity_geom :: Geom where
  "identity_geom =
     \<lparr>transform = mat_identity, inverseTransform = mat_identity, invTranspose = mat_identity\<rparr>"

definition out0 :: outs where
  "out0 = \<lparr>intersectionPoint = Vec3 7 7 7, normal = Vec3 7 7 7, outside = False\<rparr>"

text \<open>Rays along the z axis: toward the primitive from outside, away from it, from its
  centre; and a ray that passes beside it.\<close>

definition ray_front :: Ray where
  "ray_front = \<lparr>origin = Vec3 0 0 (- 2), direction = Vec3 0 0 1\<rparr>"

definition ray_away :: Ray where
  "ray_away = \<lparr>origin = Vec3 0 0 (- 2), direction = Vec3 0 0 (- 1)\<rparr>"

definition ray_centre :: Ray where
  "ray_centre = \<lparr>origin = Vec3 0 0 0, direction = Vec3 0 0 1\<rparr>"

definition ray_beside :: Ray where
  "ray_beside = \<lparr>origin = Vec3 2 0 0, direction = Vec3 0 0 1\<rparr>"

text \<open>A ray that starts on the sphere of radius 0.5 and runs along its tangent.\<close>

definition ray_tangent :: Ray where
  "ray_tangent = \<lparr>origin = Vec3 0.5 0 0, direction = Vec3 0 1 0\<rparr>"


text \<open>A primitive stretched by the factor 2 along \<open>z\<close> (a non-uniform scale, with the inverse
  and the inverse-transpose the scene loader would store), and a ray toward it along
  \<open>z\<close>. In object space this ray starts at \<open>(0, 0, -2)\<close>.\<close>

definition stretched_geom :: Geom where
  "stretched_geom =
     \<lparr>transform = Mat4 (Vec4 1 0 0 0) (Vec4 0 1 0 0) (Vec4 0 0 2 0) (Vec4 0 0 0 1),
      inverseTransform = Mat4 (Vec4 1 0 0 0) (Vec4 0 1 0 0) (Vec4 0 0 (1 / 2) 0) (Vec4 0 0 0 1),
      invTranspose = Mat4 (Vec4 1 0 0 0) (Vec4 0 1 0 0) (Vec4 0 0 (1 / 2) 0) (Vec4 0 0 0 1)\<rparr>"

definition ray_far :: Ray where
  "ray_far = \<lparr>origin = Vec3 0 0 (- 4), direction = Vec3 0 0 1\<rparr>"

text \<open>A ray along the edge of the unit box where the faces \<open>x = 0.5\<close> and \<open>y = -0.5\<close>
  meet, and a ray that starts inside the unit box, \<open>0.00001\<close> before the face
  \<open>z = 0.5\<close>.\<close>

definition ray_edge :: Ray where
  "ray_edge = \<lparr>origin = Vec3 0.5 (- 0.5) (- 2), direction = Vec3 0 0 1\<rparr>"

definition ray_near_face :: Ray where
  "ray_near_face = \<lparr>origin = Vec3 0 0 0.49999, direction = Vec3 0 0 1\<rparr>"

text \<open>A triangle in the plane \<open>z = 0\<close>, the ray that comes straight down on a point \<open>p\<close>
  of that plane from height 1, and two stand-ins for \<^verbatim>\<open>glm::intersectRayTriangle\<close>: one
  that reports no hit, one that reports a hit and leaves the given vector in
  \<^verbatim>\<open>bary_coords\<close> (the two barycentric weights and the distance along the ray).\<close>

definition tri1 :: vec3 where "tri1 = Vec3 0 0 0"

definition tri2 :: vec3 where "tri2 = Vec3 1 0 0"

definition tri3 :: vec3 where "tri3 = Vec3 0 1 0"

definition ray_down :: "vec3 \<Rightarrow> Ray" where
  "ray_down p = \<lparr>origin = p + Vec3 0 0 1, direction = Vec3 0 0 (- 1)\<rparr>"

definition irt_miss :: ray_triangle where
  "irt_miss = (\<lambda>orig dir a b c. None)"

definition irt_hit :: "vec3 \<Rightarrow> ray_triangle" where
  "irt_hit bary = (\<lambda>orig dir a b c. Some bary)"

section \<open>Basic facts\<close>

lemmas vec3_defs = zero_vec3_def plus_vec3_def minus_vec3_def uminus_vec3_def

lemma glm_length_nonneg: "0 \<le> glm_length v"
  by (simp add: glm_length_def glm_dot_def)

lemma glm_dot_self_nonneg: "0 \<le> glm_dot v v"
  by (simp add: glm_dot_def)

lemma glm_dot_self_zero_iff: "glm_dot v v = 0 \<longleftrightarrow> v = 0"
proof (cases v)
  case (Vec3 a b c)
  have "a * a + b * b + c * c = 0 \<longleftrightarrow> a = 0 \<and> b = 0 \<and> c = 0"
    by (smt (verit) mult_eq_0_iff zero_le_square add_nonneg_eq_0_iff add_nonneg_nonneg)
  then show ?thesis
    using Vec3 by (simp add: glm_dot_def zero_vec3_def)
qed

lemma glm_length_zero_iff: "glm_length v = 0 \<longleftrightarrow> v = 0"
  by (simp add: glm_length_def glm_dot_self_zero_iff)

lemma glm_dot_uminus_self: "glm_dot (- a) (- a) = glm_dot a a"
  by (simp add: glm_dot_def uminus_vec3_def)

lemma glm_dot_uminus_left: "glm_dot (- a) d = - glm_dot a d"
  by (simp add: glm_dot_def uminus_vec3_def)

lemma glm_normalize_uminus: "glm_normalize (- v) = - glm_normalize v"
  by (simp add: glm_normalize_def glm_dot_uminus_self) (simp add: smul_def uminus_vec3_def)

lemma glm_length_uminus: "glm_length (- v) = glm_length v"
  by (simp add: glm_length_def glm_dot_uminus_self)

lemma smul_zero_left [simp]: "smul 0 v = 0"
  by (simp add: smul_def zero_vec3_def)

lemma sdiv_zero [simp]: "sdiv 0 s = 0"
  by (simp add: sdiv_def zero_vec3_def)

lemma glm_cross_zero [simp]: "glm_cross 0 v = 0" "glm_cross v 0 = 0"
  by (simp_all add: glm_cross_def zero_vec3_def)

lemma glm_length_zero [simp]: "glm_length 0 = 0"
  by (simp add: glm_length_zero_iff)

lemma sdiv_smul_cancel: "s \<noteq> 0 \<Longrightarrow> sdiv (smul s v) s = v"
  by (cases v) (simp add: sdiv_def smul_def)

lemma xlt_PInf_left [simp]: "xlt PInf x = False"
  by (cases x) simp_all

lemma xlt_MInf_right [simp]: "xlt x MInf = False"
  by (cases x) simp_all

lemma xlt_left_cases: "xlt a b \<Longrightarrow> a \<noteq> PInf \<and> a \<noteq> NaN"
  by (cases a; cases b; simp)

lemma xlt_right_cases: "xlt a b \<Longrightarrow> b \<noteq> MInf \<and> b \<noteq> NaN"
  by (cases a; cases b; simp)

lemma glm_dot_normalize_left:
  "glm_dot (glm_normalize w) d = glm_dot w d / sqrt (glm_dot w w)"
  by (simp add: glm_normalize_def glm_dot_def smul_def algebra_simps add_divide_distrib)

lemma glm_dot_normalize_right:
  "glm_dot n (glm_normalize v) = glm_dot n v / sqrt (glm_dot v v)"
  by (simp add: glm_normalize_def glm_dot_def smul_def algebra_simps add_divide_distrib)

subsection \<open>Triangles\<close>

lemma glm_dot_smul_smul: "glm_dot (smul k v) (smul k v) = k * k * glm_dot v v"
  by (simp add: glm_dot_def smul_def algebra_simps)

lemma glm_dot_normalize_self:
  assumes "v \<noteq> 0"
  shows "glm_dot (glm_normalize v) (glm_normalize v) = 1"
proof -
  have p: "0 < glm_dot v v"
    using assms glm_dot_self_nonneg [of v] glm_dot_self_zero_iff [of v] by simp
  then have "sqrt (glm_dot v v) * sqrt (glm_dot v v) = glm_dot v v"
    by simp
  then have "1 / sqrt (glm_dot v v) * (1 / sqrt (glm_dot v v)) * glm_dot v v = 1"
    using p by (simp add: field_simps)
  then show ?thesis
    by (simp only: glm_normalize_def glm_dot_smul_smul)
qed

lemma glm_length_normalize: "v \<noteq> 0 \<Longrightarrow> glm_length (glm_normalize v) = 1"
  by (simp add: glm_length_def glm_dot_normalize_self)

lemma cross_corner2: "glm_cross (v1 - v2) (v3 - v2) = - glm_cross (v2 - v1) (v3 - v1)"
  by (cases v1; cases v2; cases v3) (simp add: glm_cross_def vec3_defs algebra_simps)

lemma cross_corner3: "glm_cross (v1 - v3) (v2 - v3) = glm_cross (v2 - v1) (v3 - v1)"
  by (cases v1; cases v2; cases v3) (simp add: glm_cross_def vec3_defs algebra_simps)

lemma bary_position_one_hot:
  "vx b = 0 \<Longrightarrow> vy b = 0 \<Longrightarrow> bary_position b v1 v2 v3 = v1"
  "vx b = 1 \<Longrightarrow> vy b = 0 \<Longrightarrow> bary_position b v1 v2 v3 = v2"
  "vx b = 0 \<Longrightarrow> vy b = 1 \<Longrightarrow> bary_position b v1 v2 v3 = v3"
  by (simp_all add: bary_position_def smul_def vec3_defs)

lemma smoothNormal_vertex:
  assumes "has_normal normal1 normal2 normal3"
    and "glm_cross (vertex1 - vertex2) (vertex3 - vertex2) \<noteq> 0"
  shows "smoothNormal vertex1 vertex1 vertex2 vertex3 normal1 normal2 normal3 =
      glm_normalize normal1"
    and "smoothNormal vertex2 vertex1 vertex2 vertex3 normal1 normal2 normal3 =
      glm_normalize normal2"
    and "smoothNormal vertex3 vertex1 vertex2 vertex3 normal1 normal2 normal3 =
      glm_normalize normal3"
proof -
  let ?S = "0.5 * glm_length (glm_cross (vertex1 - vertex2) (vertex3 - vertex2))"
  have S: "?S \<noteq> 0"
    using assms(2) by (simp add: glm_length_zero_iff)
  have a1: "glm_length (glm_cross (vertex2 - vertex1) (vertex3 - vertex1)) =
      glm_length (glm_cross (vertex1 - vertex2) (vertex3 - vertex2))"
    by (simp only: cross_corner2 [of vertex1 vertex2 vertex3] glm_length_uminus)
  have a3: "glm_length (glm_cross (vertex1 - vertex3) (vertex2 - vertex3)) =
      glm_length (glm_cross (vertex1 - vertex2) (vertex3 - vertex2))"
    by (simp only: cross_corner3 [of vertex1 vertex3 vertex2]
        cross_corner2 [of vertex1 vertex2 vertex3] glm_length_uminus)
  show "smoothNormal vertex1 vertex1 vertex2 vertex3 normal1 normal2 normal3 =
      glm_normalize normal1"
    using assms(1) sdiv_smul_cancel [OF S]
    by (simp add: smoothNormal_def cornerNormals_def Let_def a1)
  show "smoothNormal vertex2 vertex1 vertex2 vertex3 normal1 normal2 normal3 =
      glm_normalize normal2"
    using assms(1) sdiv_smul_cancel [OF S]
    by (simp add: smoothNormal_def cornerNormals_def Let_def)
  show "smoothNormal vertex3 vertex1 vertex2 vertex3 normal1 normal2 normal3 =
      glm_normalize normal3"
    using assms(1) sdiv_smul_cancel [OF S]
    by (simp add: smoothNormal_def cornerNormals_def Let_def a3)
qed

lemma tri_hit_normal:
  assumes "irt (origin (objectRay mesh r)) (direction (objectRay mesh r))
      vertex1 vertex2 vertex3 = Some b"
  shows "normal (snd (triangleInteractionTest irt mesh r vertex1 vertex2 vertex3
      normal1 normal2 normal3 out)) =
    flip_toward
      (glm_normalize (multiplyMV (invTranspose mesh)
         (vec4of (smoothNormal (bary_position b vertex1 vertex2 vertex3)
            vertex1 vertex2 vertex3 normal1 normal2 normal3) 0)))
      (direction r)"
  using assms by (simp add: triangleInteractionTest_def Let_def flip_toward_def)

subsection \<open>Evaluation at the fixtures\<close>

lemma multiplyMV_identity [simp]: "multiplyMV mat_identity (vec4of v w) = v"
  by (simp add: multiplyMV_def mat_identity_def mat_mul_vec_def vec3of_def vec4of_def)

lemma mat_transpose_identity [simp]: "mat_transpose mat_identity = mat_identity"
  by (simp add: mat_transpose_def mat_identity_def)

lemma glm_length_axis_z: "glm_length (Vec3 0 0 z) = \<bar>z\<bar>"
  by (simp add: glm_length_def glm_dot_def)

lemma glm_normalize_axis_z: "glm_normalize (Vec3 0 0 z) = Vec3 0 0 (z / \<bar>z\<bar>)"
  by (simp add: glm_normalize_def glm_dot_def smul_def)

lemma glm_normalize_unit_z:
  "glm_normalize (Vec3 0 0 1) = Vec3 0 0 1"
  "glm_normalize (Vec3 0 0 (- 1)) = Vec3 0 0 (- 1)"
  by (simp_all add: glm_normalize_axis_z)

lemma sqrt_quarter: "sqrt (1 / 4) = 1 / 2"
  by (simp add: real_sqrt_divide)

lemmas slab_eval =
  slab_pass_def slab_axis_def slab_init_def Let_def vidx_def vset_def fdiv_def
  glm_min_def glm_max_def zero_vec3_def

lemma identity_geom_fields [simp]:
  "transform identity_geom = mat_identity"
  "inverseTransform identity_geom = mat_identity"
  "invTranspose identity_geom = mat_identity"
  by (simp_all add: identity_geom_def)

lemma objectRay_identity [simp]:
  "objectRay identity_geom r = \<lparr>origin = origin r, direction = glm_normalize (direction r)\<rparr>"
  by (simp add: objectRay_def)

lemma slab_pass_front:
  "slab_pass \<lparr>origin = Vec3 0 0 (- 2), direction = Vec3 0 0 1\<rparr> =
     \<lparr>tmin = Fin (3 / 2), tmax = Fin (5 / 2),
      tmin_n = Vec3 0 0 (- 1), tmax_n = Vec3 0 0 (- 1)\<rparr>"
  by (simp add: slab_eval)

lemma slab_pass_away:
  "slab_pass \<lparr>origin = Vec3 0 0 (- 2), direction = Vec3 0 0 (- 1)\<rparr> =
     \<lparr>tmin = Fin (- (10 ^ 38)), tmax = Fin (- (3 / 2)),
      tmin_n = Vec3 0 0 0, tmax_n = Vec3 0 0 1\<rparr>"
  by (simp add: slab_eval)

lemma slab_pass_centre:
  "slab_pass \<lparr>origin = Vec3 0 0 0, direction = Vec3 0 0 1\<rparr> =
     \<lparr>tmin = Fin (- (10 ^ 38)), tmax = Fin (1 / 2),
      tmin_n = Vec3 0 0 0, tmax_n = Vec3 0 0 (- 1)\<rparr>"
  by (simp add: slab_eval)

lemma box_front_value:
  "boxIntersectionTest identity_geom ray_front out =
     (14999 / 10000,
      \<lparr>intersectionPoint = Vec3 0 0 (- (5001 / 10000)), normal = Vec3 0 0 (- 1),
       outside = True\<rparr>)"
  by (simp add: boxIntersectionTest_def ray_front_def glm_normalize_unit_z
      slab_pass_front getPointOnRay_def smul_def plus_vec3_def minus_vec3_def
      glm_length_axis_z)

lemma box_away_value: "boxIntersectionTest identity_geom ray_away out = (- 1, out)"
  by (simp add: boxIntersectionTest_def ray_away_def glm_normalize_unit_z slab_pass_away)

lemma slab_pass_beside:
  "slab_pass \<lparr>origin = Vec3 2 0 0, direction = Vec3 0 0 1\<rparr> =
     \<lparr>tmin = Fin (- (10 ^ 38)), tmax = MInf, tmin_n = Vec3 0 0 0, tmax_n = Vec3 (- 1) 0 0\<rparr>"
  by (simp add: slab_eval)

lemma box_beside_value: "boxIntersectionTest identity_geom ray_beside out = (- 1, out)"
  by (simp add: boxIntersectionTest_def ray_beside_def glm_normalize_unit_z slab_pass_beside)

lemma box_centre_value:
  "boxIntersectionTest identity_geom ray_centre out =
     (4999 / 10000,
      \<lparr>intersectionPoint = Vec3 0 0 (4999 / 10000), normal = Vec3 0 0 (- 1),
       outside = False\<rparr>)"
  by (simp add: boxIntersectionTest_def ray_centre_def glm_normalize_unit_z
      slab_pass_centre getPointOnRay_def smul_def plus_vec3_def minus_vec3_def
      glm_length_axis_z)

subsection \<open>The slab loop\<close>

lemma slab_axis_bounds_ok: "slab_bounds_ok s \<Longrightarrow> slab_bounds_ok (slab_axis q xyz s)"
  unfolding slab_bounds_ok_def slab_axis_def Let_def
  by (auto dest: xlt_left_cases xlt_right_cases)

lemma slab_fold_bounds_ok:
  "slab_bounds_ok s \<Longrightarrow> slab_bounds_ok (fold (slab_axis q) xs s)"
  by (induction xs arbitrary: s) (simp_all add: slab_axis_bounds_ok)

lemma slab_pass_bounds_ok: "slab_bounds_ok (slab_pass q)"
  unfolding slab_pass_def
  by (rule slab_fold_bounds_ok) (simp add: slab_bounds_ok_def slab_init_def)

text \<open>On the hit path both bounds are finite, so \<open>fin_val\<close> returns the bound itself.\<close>

lemma slab_hit_finite:
  assumes "xle (tmin (slab_pass q)) (tmax (slab_pass q))"
    and "xlt (Fin 0) (tmax (slab_pass q))"
  shows "\<exists>a b. tmin (slab_pass q) = Fin a \<and> tmax (slab_pass q) = Fin b"
  using assms slab_pass_bounds_ok [of q] unfolding slab_bounds_ok_def
  by (cases "tmin (slab_pass q)"; cases "tmax (slab_pass q)"; simp)

lemma box_hit_iff:
  "0 \<le> fst (boxIntersectionTest box r out) \<longleftrightarrow>
     xle (tmin (slab_pass (objectRay box r))) (tmax (slab_pass (objectRay box r))) \<and>
     xlt (Fin 0) (tmax (slab_pass (objectRay box r)))"
  using glm_length_nonneg by (simp add: boxIntersectionTest_def Let_def)

subsection \<open>The sphere test in the specification's letters\<close>

lemmas sphere_spec_defs = sphere_b_def sphere_c_def sphere_disc_def sphere_t1_def sphere_t2_def

lemma sphere_unfold:
  "sphereIntersectionTest sphere r out =
     (let rt = objectRay sphere r in
      if sphere_disc rt < 0 then (- 1, out)
      else if sphere_t1 rt < 0 \<and> sphere_t2 rt < 0 then (- 1, out)
      else
        (let t = (if sphere_t1 rt > 0 \<and> sphere_t2 rt > 0
                  then min (sphere_t1 rt) (sphere_t2 rt) else max (sphere_t1 rt) (sphere_t2 rt));
             outside' = (sphere_t1 rt > 0 \<and> sphere_t2 rt > 0);
             p = getPointOnRay rt t;
             ip = multiplyMV (transform sphere) (vec4of p 1);
             nrm = glm_normalize (multiplyMV (invTranspose sphere) (vec4of p 0))
         in (glm_length (origin r - ip),
             \<lparr>intersectionPoint = ip, normal = (if outside' then nrm else - nrm),
              outside = outside'\<rparr>)))"
  unfolding sphereIntersectionTest_def sphere_spec_defs Let_def power2_eq_square
  by (simp only: split: if_splits prod.splits) auto

lemma sphere_roots_ordered: "0 \<le> sphere_disc rt \<Longrightarrow> sphere_t2 rt \<le> sphere_t1 rt"
  by (simp add: sphere_t1_def sphere_t2_def)

lemma sphere_front_roots:
  "sphere_disc \<lparr>origin = Vec3 0 0 (- 2), direction = Vec3 0 0 1\<rparr> = 1 / 4"
  "sphere_t1 \<lparr>origin = Vec3 0 0 (- 2), direction = Vec3 0 0 1\<rparr> = 5 / 2"
  "sphere_t2 \<lparr>origin = Vec3 0 0 (- 2), direction = Vec3 0 0 1\<rparr> = 3 / 2"
  by (simp_all add: sphere_spec_defs glm_dot_def power2_eq_square sqrt_quarter)

lemma sphere_away_roots:
  "sphere_disc \<lparr>origin = Vec3 0 0 (- 2), direction = Vec3 0 0 (- 1)\<rparr> = 1 / 4"
  "sphere_t1 \<lparr>origin = Vec3 0 0 (- 2), direction = Vec3 0 0 (- 1)\<rparr> = - (3 / 2)"
  "sphere_t2 \<lparr>origin = Vec3 0 0 (- 2), direction = Vec3 0 0 (- 1)\<rparr> = - (5 / 2)"
  by (simp_all add: sphere_spec_defs glm_dot_def power2_eq_square sqrt_quarter)

lemma sphere_centre_roots:
  "sphere_disc \<lparr>origin = Vec3 0 0 0, direction = Vec3 0 0 1\<rparr> = 1 / 4"
  "sphere_t1 \<lparr>origin = Vec3 0 0 0, direction = Vec3 0 0 1\<rparr> = 1 / 2"
  "sphere_t2 \<lparr>origin = Vec3 0 0 0, direction = Vec3 0 0 1\<rparr> = - (1 / 2)"
  by (simp_all add: sphere_spec_defs glm_dot_def power2_eq_square sqrt_quarter)

lemma sphere_beside_disc:
  "sphere_disc \<lparr>origin = Vec3 2 0 0, direction = Vec3 0 0 1\<rparr> = - (15 / 4)"
  by (simp_all add: sphere_spec_defs glm_dot_def power2_eq_square)

lemma sphere_front_value:
  "sphereIntersectionTest identity_geom ray_front out =
     (14999 / 10000,
      \<lparr>intersectionPoint = Vec3 0 0 (- (5001 / 10000)), normal = Vec3 0 0 (- 1),
       outside = True\<rparr>)"
  by (simp add: sphere_unfold ray_front_def glm_normalize_unit_z sphere_front_roots
      getPointOnRay_def smul_def plus_vec3_def minus_vec3_def glm_length_axis_z
      glm_normalize_axis_z)

lemma sphere_centre_value:
  "sphereIntersectionTest identity_geom ray_centre out =
     (4999 / 10000,
      \<lparr>intersectionPoint = Vec3 0 0 (4999 / 10000), normal = Vec3 0 0 (- 1),
       outside = False\<rparr>)"
  by (simp add: sphere_unfold ray_centre_def glm_normalize_unit_z sphere_centre_roots
      getPointOnRay_def smul_def plus_vec3_def minus_vec3_def uminus_vec3_def glm_length_axis_z
      glm_normalize_axis_z)

lemma sphere_away_value: "sphereIntersectionTest identity_geom ray_away out = (- 1, out)"
  by (simp add: sphere_unfold ray_away_def glm_normalize_unit_z sphere_away_roots)

lemma sphere_beside_value: "sphereIntersectionTest identity_geom ray_beside out = (- 1, out)"
  by (simp add: sphere_unfold ray_beside_def glm_normalize_unit_z sphere_beside_disc)

lemma tri_miss_value:
  "triangleInteractionTest irt_miss g r v1 v2 v3 n1 n2 n3 out = (- 1, out)"
  by (simp add: triangleInteractionTest_def irt_miss_def)

lemma tri_vertex1_value:
  "triangleInteractionTest (irt_hit (Vec3 0 0 t)) identity_geom r tri1 tri2 tri3
     (Vec3 0 0 2) (Vec3 0 0 3) (Vec3 0 0 4) out =
   (glm_length (origin r - tri1),
    (if glm_dot (Vec3 0 0 1) (direction r) > 0
     then \<lparr>intersectionPoint = tri1, normal = Vec3 0 0 (- 1), outside = False\<rparr>
     else \<lparr>intersectionPoint = tri1, normal = Vec3 0 0 1, outside = outside out\<rparr>))"
proof -
  have h1: "has_normal (Vec3 0 0 2) (Vec3 0 0 3) (Vec3 0 0 4)"
    by (simp add: has_normal_def glm_length_axis_z)
  have h2: "glm_cross (tri1 - tri2) (tri3 - tri2) \<noteq> 0"
    by (simp add: tri1_def tri2_def tri3_def glm_cross_def vec3_defs)
  have p: "bary_position (Vec3 0 0 t) tri1 tri2 tri3 = tri1"
    by (simp add: bary_position_one_hot)
  show ?thesis
    by (simp add: triangleInteractionTest_def irt_hit_def Let_def p
        smoothNormal_vertex(1) [OF h1 h2] glm_normalize_axis_z uminus_vec3_def)
qed

subsection \<open>The stretched primitive\<close>

lemma objectRay_stretched_far:
  "objectRay stretched_geom ray_far = \<lparr>origin = Vec3 0 0 (- 2), direction = Vec3 0 0 1\<rparr>"
  by (simp add: objectRay_def stretched_geom_def ray_far_def multiplyMV_def mat_mul_vec_def
      vec3of_def vec4of_def glm_normalize_axis_z)

lemma box_far_value:
  "boxIntersectionTest stretched_geom ray_far out =
     (29998 / 10000,
      \<lparr>intersectionPoint = Vec3 0 0 (- (10002 / 10000)), normal = Vec3 0 0 (- 1),
       outside = True\<rparr>)"
  by (simp add: boxIntersectionTest_def objectRay_stretched_far slab_pass_front
      getPointOnRay_def glm_normalize_unit_z smul_def plus_vec3_def minus_vec3_def)
    (simp add: stretched_geom_def ray_far_def multiplyMV_def mat_mul_vec_def
      vec3of_def vec4of_def glm_normalize_axis_z glm_length_axis_z minus_vec3_def)

lemma sphere_far_value:
  "sphereIntersectionTest stretched_geom ray_far out =
     (29998 / 10000,
      \<lparr>intersectionPoint = Vec3 0 0 (- (10002 / 10000)), normal = Vec3 0 0 (- 1),
       outside = True\<rparr>)"
  by (simp add: sphere_unfold objectRay_stretched_far sphere_front_roots
      getPointOnRay_def glm_normalize_unit_z smul_def plus_vec3_def minus_vec3_def)
    (simp add: stretched_geom_def ray_far_def multiplyMV_def mat_mul_vec_def
      vec3of_def vec4of_def glm_normalize_axis_z glm_length_axis_z minus_vec3_def)

lemma box_t_far: "box_t stretched_geom ray_far = 3 / 2"
  by (simp add: box_t_def objectRay_stretched_far slab_pass_front)

lemma sphere_t_far: "sphere_t stretched_geom ray_far = 3 / 2"
  by (simp add: sphere_t_def objectRay_stretched_far sphere_front_roots)

lemma tri_far_value:
  "triangleInteractionTest (irt_hit (Vec3 0 0 2)) stretched_geom ray_far tri1 tri2 tri3
     (Vec3 0 0 2) (Vec3 0 0 3) (Vec3 0 0 4) out =
   (4, \<lparr>intersectionPoint = Vec3 0 0 0, normal = Vec3 0 0 (- 1), outside = False\<rparr>)"
proof -
  have h1: "has_normal (Vec3 0 0 2) (Vec3 0 0 3) (Vec3 0 0 4)"
    by (simp add: has_normal_def glm_length_axis_z)
  have h2: "glm_cross (tri1 - tri2) (tri3 - tri2) \<noteq> 0"
    by (simp add: tri1_def tri2_def tri3_def glm_cross_def vec3_defs)
  have p: "bary_position (Vec3 0 0 2) tri1 tri2 tri3 = tri1"
    by (simp add: bary_position_one_hot)
  show ?thesis
    by (simp add: triangleInteractionTest_def irt_hit_def Let_def p
        smoothNormal_vertex(1) [OF h1 h2] glm_normalize_axis_z)
      (simp add: stretched_geom_def ray_far_def tri1_def multiplyMV_def mat_mul_vec_def
        vec3of_def vec4of_def glm_normalize_axis_z glm_length_axis_z glm_dot_def vec3_defs)
qed

lemma origin_back_far:
  "multiplyMV (transform stretched_geom) (vec4of (origin (objectRay stretched_geom ray_far)) 1) =
     origin ray_far"
  by (simp add: objectRay_stretched_far)
    (simp add: stretched_geom_def ray_far_def multiplyMV_def mat_mul_vec_def vec3of_def
      vec4of_def)

lemma world_step_far: "world_step stretched_geom ray_far = Vec3 0 0 2"
  by (simp add: world_step_def objectRay_stretched_far glm_normalize_unit_z)
    (simp add: stretched_geom_def multiplyMV_def mat_mul_vec_def vec3of_def vec4of_def)

lemma exact_distance_far: "exact_distance stretched_geom ray_far (3 / 2) = 3"
  by (simp add: exact_distance_def surface_point_def objectRay_stretched_far
      glm_normalize_unit_z smul_def plus_vec3_def)
    (simp add: stretched_geom_def ray_far_def multiplyMV_def mat_mul_vec_def vec3of_def
      vec4of_def minus_vec3_def glm_length_axis_z)

subsection \<open>The point written on a hit\<close>

text \<open>On a hit the box tester and the sphere tester write the image of
  \<^verbatim>\<open>getPointOnRay\<close> at the selected parameter and return the distance from the ray origin
  to that image; the selected parameter is positive (box) or non-negative (sphere).\<close>

lemma sphere_hit_iff:
  "0 \<le> fst (sphereIntersectionTest g r out) \<longleftrightarrow>
     0 \<le> sphere_disc (objectRay g r) \<and>
     \<not> (sphere_t1 (objectRay g r) < 0 \<and> sphere_t2 (objectRay g r) < 0)"
  using glm_length_nonneg by (auto simp add: sphere_unfold Let_def)

lemma box_hit_point:
  assumes "0 \<le> fst (boxIntersectionTest g r out)"
  shows "intersectionPoint (snd (boxIntersectionTest g r out)) =
      multiplyMV (transform g) (vec4of (getPointOnRay (objectRay g r) (box_t g r)) 1)"
    and "fst (boxIntersectionTest g r out) =
      glm_length (origin r - multiplyMV (transform g)
        (vec4of (getPointOnRay (objectRay g r) (box_t g r)) 1))"
    and "0 < box_t g r"
proof -
  let ?s = "slab_pass (objectRay g r)"
  have hit: "xle (tmin ?s) (tmax ?s)" "xlt (Fin 0) (tmax ?s)"
    using assms box_hit_iff by blast+
  show "intersectionPoint (snd (boxIntersectionTest g r out)) =
      multiplyMV (transform g) (vec4of (getPointOnRay (objectRay g r) (box_t g r)) 1)"
    using hit by (simp add: boxIntersectionTest_def box_t_def Let_def)
  show "fst (boxIntersectionTest g r out) =
      glm_length (origin r - multiplyMV (transform g)
        (vec4of (getPointOnRay (objectRay g r) (box_t g r)) 1))"
    using hit by (simp add: boxIntersectionTest_def box_t_def Let_def)
  from slab_hit_finite [OF hit] obtain a b where ab: "tmin ?s = Fin a" "tmax ?s = Fin b"
    by blast
  then show "0 < box_t g r"
    using hit by (simp add: box_t_def Let_def)
qed

lemma sphere_hit_point:
  assumes "0 \<le> fst (sphereIntersectionTest g r out)"
  shows "intersectionPoint (snd (sphereIntersectionTest g r out)) =
      multiplyMV (transform g) (vec4of (getPointOnRay (objectRay g r) (sphere_t g r)) 1)"
    and "fst (sphereIntersectionTest g r out) =
      glm_length (origin r - multiplyMV (transform g)
        (vec4of (getPointOnRay (objectRay g r) (sphere_t g r)) 1))"
    and "0 \<le> sphere_t g r"
proof -
  let ?rt = "objectRay g r"
  have hit: "0 \<le> sphere_disc ?rt" "\<not> (sphere_t1 ?rt < 0 \<and> sphere_t2 ?rt < 0)"
    using assms sphere_hit_iff by blast+
  have e0: "(sphere_disc ?rt < 0) = False" using hit(1) by simp
  have e1: "(sphere_t1 ?rt < 0 \<and> sphere_t2 ?rt < 0) = False" using hit(2) by simp
  show "intersectionPoint (snd (sphereIntersectionTest g r out)) =
      multiplyMV (transform g) (vec4of (getPointOnRay (objectRay g r) (sphere_t g r)) 1)"
    unfolding sphere_unfold Let_def e0 e1 sphere_t_def by simp
  show "fst (sphereIntersectionTest g r out) =
      glm_length (origin r - multiplyMV (transform g)
        (vec4of (getPointOnRay (objectRay g r) (sphere_t g r)) 1))"
    unfolding sphere_unfold Let_def e0 e1 sphere_t_def by simp
  show "0 \<le> sphere_t g r"
    using hit(2) sphere_roots_ordered [OF hit(1)] by (auto simp add: sphere_t_def Let_def)
qed

section \<open>Misses and the returned distance\<close>

text \<open>
  Claim C6. A tester that misses (it returns a negative number) returns exactly \<open>-1\<close>
  and hands back the three output channels as the caller passed them in.
\<close>

theorem miss_returns_minus_one_outputs_untouched:
  "(fst (boxIntersectionTest g r out) < 0 \<longrightarrow> boxIntersectionTest g r out = (- 1, out)) \<and>
   (fst (sphereIntersectionTest g r out) < 0 \<longrightarrow> sphereIntersectionTest g r out = (- 1, out)) \<and>
   (fst (triangleInteractionTest irt g r v1 v2 v3 n1 n2 n3 out) < 0 \<longrightarrow>
      triangleInteractionTest irt g r v1 v2 v3 n1 n2 n3 out = (- 1, out))"
proof (intro conjI impI)
  assume "fst (boxIntersectionTest g r out) < 0"
  then show "boxIntersectionTest g r out = (- 1, out)"
    using glm_length_nonneg
      [of "origin r - intersectionPoint (snd (boxIntersectionTest g r out))"]
    by (auto simp add: boxIntersectionTest_def Let_def split: if_splits)
next
  assume "fst (sphereIntersectionTest g r out) < 0"
  then show "sphereIntersectionTest g r out = (- 1, out)"
    using glm_length_nonneg
      [of "origin r - intersectionPoint (snd (sphereIntersectionTest g r out))"]
    by (auto simp add: sphereIntersectionTest_def Let_def split: if_splits)
next
  assume "fst (triangleInteractionTest irt g r v1 v2 v3 n1 n2 n3 out) < 0"
  then show "triangleInteractionTest irt g r v1 v2 v3 n1 n2 n3 out = (- 1, out)"
    using glm_length_nonneg
      [of "origin r - intersectionPoint
             (snd (triangleInteractionTest irt g r v1 v2 v3 n1 n2 n3 out))"]
    by (auto simp add: triangleInteractionTest_def Let_def split: if_splits option.splits)
qed

text \<open>The misses at the fixtures: a box and a sphere behind the ray (both roots
  negative), a sphere beside the ray (negative discriminant), a triangle that
  \<^verbatim>\<open>glm::intersectRayTriangle\<close> rejects.\<close>

theorem miss_returns_minus_one_outputs_untouched_witness:
  "fst (boxIntersectionTest identity_geom ray_away out0) < 0 \<and>
   boxIntersectionTest identity_geom ray_away out0 = (- 1, out0) \<and>
   fst (sphereIntersectionTest identity_geom ray_away out0) < 0 \<and>
   sphereIntersectionTest identity_geom ray_away out0 = (- 1, out0) \<and>
   fst (boxIntersectionTest identity_geom ray_beside out0) < 0 \<and>
   boxIntersectionTest identity_geom ray_beside out0 = (- 1, out0) \<and>
   fst (sphereIntersectionTest identity_geom ray_beside out0) < 0 \<and>
   sphereIntersectionTest identity_geom ray_beside out0 = (- 1, out0) \<and>
   fst (triangleInteractionTest irt_miss identity_geom ray_away tri1 tri2 tri3 0 0 0 out0) < 0 \<and>
   triangleInteractionTest irt_miss identity_geom ray_away tri1 tri2 tri3 0 0 0 out0 = (- 1, out0)"
proof -
  have a: "fst (boxIntersectionTest identity_geom ray_away out0) < 0"
    "fst (sphereIntersectionTest identity_geom ray_away out0) < 0"
    "fst (boxIntersectionTest identity_geom ray_beside out0) < 0"
    "fst (sphereIntersectionTest identity_geom ray_beside out0) < 0"
    "fst (triangleInteractionTest irt_miss identity_geom ray_away tri1 tri2 tri3 0 0 0 out0) < 0"
    by (simp_all add: box_away_value sphere_away_value box_beside_value sphere_beside_value
        tri_miss_value)
  show ?thesis
    using a
      miss_returns_minus_one_outputs_untouched
        [of identity_geom ray_away out0 irt_miss tri1 tri2 tri3 0 0 0]
      miss_returns_minus_one_outputs_untouched
        [of identity_geom ray_beside out0 irt_miss tri1 tri2 tri3 0 0 0]
    by blast
qed

text \<open>
  Claim C5. On a hit (a non-negative return value) each tester has written to
  \<^verbatim>\<open>intersectionPoint\<close> the forward transform of its object-space hit point (the point of
  \<^verbatim>\<open>getPointOnRay\<close> at the selected parameter for the box and the sphere, the barycentric
  combination of the vertices for the triangle), and the number it returns is the
  Euclidean distance between the world-space ray origin and that written point. The
  object-space parameter itself is not what is returned: see the stretched primitive
  below.
\<close>

theorem hit_returns_world_distance:
  "(0 \<le> fst (boxIntersectionTest g r out) \<longrightarrow>
      intersectionPoint (snd (boxIntersectionTest g r out)) =
        multiplyMV (transform g) (vec4of (getPointOnRay (objectRay g r) (box_t g r)) 1) \<and>
      fst (boxIntersectionTest g r out) =
        glm_length (origin r - intersectionPoint (snd (boxIntersectionTest g r out)))) \<and>
   (0 \<le> fst (sphereIntersectionTest g r out) \<longrightarrow>
      intersectionPoint (snd (sphereIntersectionTest g r out)) =
        multiplyMV (transform g) (vec4of (getPointOnRay (objectRay g r) (sphere_t g r)) 1) \<and>
      fst (sphereIntersectionTest g r out) =
        glm_length (origin r - intersectionPoint (snd (sphereIntersectionTest g r out)))) \<and>
   (0 \<le> fst (triangleInteractionTest irt g r v1 v2 v3 n1 n2 n3 out) \<longrightarrow>
      (\<exists>b. irt (origin (objectRay g r)) (direction (objectRay g r)) v1 v2 v3 = Some b \<and>
         intersectionPoint (snd (triangleInteractionTest irt g r v1 v2 v3 n1 n2 n3 out)) =
           multiplyMV (transform g) (vec4of (bary_position b v1 v2 v3) 1)) \<and>
      fst (triangleInteractionTest irt g r v1 v2 v3 n1 n2 n3 out) =
        glm_length (origin r - intersectionPoint
          (snd (triangleInteractionTest irt g r v1 v2 v3 n1 n2 n3 out))))"
proof (intro conjI impI)
  assume h: "0 \<le> fst (boxIntersectionTest g r out)"
  show "intersectionPoint (snd (boxIntersectionTest g r out)) =
      multiplyMV (transform g) (vec4of (getPointOnRay (objectRay g r) (box_t g r)) 1)"
    using h by (rule box_hit_point(1))
  show "fst (boxIntersectionTest g r out) =
      glm_length (origin r - intersectionPoint (snd (boxIntersectionTest g r out)))"
    using box_hit_point(1,2) [OF h] by simp
next
  assume h: "0 \<le> fst (sphereIntersectionTest g r out)"
  show "intersectionPoint (snd (sphereIntersectionTest g r out)) =
      multiplyMV (transform g) (vec4of (getPointOnRay (objectRay g r) (sphere_t g r)) 1)"
    using h by (rule sphere_hit_point(1))
  show "fst (sphereIntersectionTest g r out) =
      glm_length (origin r - intersectionPoint (snd (sphereIntersectionTest g r out)))"
    using sphere_hit_point(1,2) [OF h] by simp
next
  assume h: "0 \<le> fst (triangleInteractionTest irt g r v1 v2 v3 n1 n2 n3 out)"
  then show "\<exists>b. irt (origin (objectRay g r)) (direction (objectRay g r)) v1 v2 v3 = Some b \<and>
      intersectionPoint (snd (triangleInteractionTest irt g r v1 v2 v3 n1 n2 n3 out)) =
        multiplyMV (transform g) (vec4of (bary_position b v1 v2 v3) 1)"
    by (auto simp add: triangleInteractionTest_def Let_def split: option.splits)
  from h show "fst (triangleInteractionTest irt g r v1 v2 v3 n1 n2 n3 out) =
      glm_length (origin r - intersectionPoint
        (snd (triangleInteractionTest irt g r v1 v2 v3 n1 n2 n3 out)))"
    by (auto simp add: triangleInteractionTest_def Let_def split: if_splits option.splits)
qed

text \<open>The primitive stretched by 2 along \<open>z\<close>, seen from \<open>(0, 0, -4)\<close>. The object-space
  parameter of the box hit and of the sphere hit is 1.5, the written point is
  \<open>(0, 0, -1.0002)\<close> and the returned distance is 2.9998; the triangle is met at its first
  vertex, at object-space distance 2 (the third component that
  \<^verbatim>\<open>glm::intersectRayTriangle\<close> leaves in \<^verbatim>\<open>bary_coords\<close>), and the returned distance is 4.\<close>

theorem hit_returns_world_distance_witness:
  "0 \<le> fst (boxIntersectionTest stretched_geom ray_far out0) \<and>
   box_t stretched_geom ray_far = 1.5 \<and>
   intersectionPoint (snd (boxIntersectionTest stretched_geom ray_far out0)) =
     Vec3 0 0 (- 1.0002) \<and>
   intersectionPoint (snd (boxIntersectionTest stretched_geom ray_far out0)) =
     multiplyMV (transform stretched_geom)
       (vec4of (getPointOnRay (objectRay stretched_geom ray_far)
          (box_t stretched_geom ray_far)) 1) \<and>
   fst (boxIntersectionTest stretched_geom ray_far out0) =
     glm_length (origin ray_far -
       intersectionPoint (snd (boxIntersectionTest stretched_geom ray_far out0))) \<and>
   fst (boxIntersectionTest stretched_geom ray_far out0) = 2.9998 \<and>
   fst (boxIntersectionTest stretched_geom ray_far out0) \<noteq> box_t stretched_geom ray_far \<and>
   0 \<le> fst (sphereIntersectionTest stretched_geom ray_far out0) \<and>
   sphere_t stretched_geom ray_far = 1.5 \<and>
   intersectionPoint (snd (sphereIntersectionTest stretched_geom ray_far out0)) =
     Vec3 0 0 (- 1.0002) \<and>
   intersectionPoint (snd (sphereIntersectionTest stretched_geom ray_far out0)) =
     multiplyMV (transform stretched_geom)
       (vec4of (getPointOnRay (objectRay stretched_geom ray_far)
          (sphere_t stretched_geom ray_far)) 1) \<and>
   fst (sphereIntersectionTest stretched_geom ray_far out0) =
     glm_length (origin ray_far -
       intersectionPoint (snd (sphereIntersectionTest stretched_geom ray_far out0))) \<and>
   fst (sphereIntersectionTest stretched_geom ray_far out0) = 2.9998 \<and>
   fst (sphereIntersectionTest stretched_geom ray_far out0) \<noteq>
     sphere_t stretched_geom ray_far \<and>
   0 \<le> fst (triangleInteractionTest (irt_hit (Vec3 0 0 2)) stretched_geom ray_far
              tri1 tri2 tri3 (Vec3 0 0 2) (Vec3 0 0 3) (Vec3 0 0 4) out0) \<and>
   irt_hit (Vec3 0 0 2) (origin (objectRay stretched_geom ray_far))
     (direction (objectRay stretched_geom ray_far)) tri1 tri2 tri3 = Some (Vec3 0 0 2) \<and>
   intersectionPoint (snd (triangleInteractionTest (irt_hit (Vec3 0 0 2)) stretched_geom ray_far
       tri1 tri2 tri3 (Vec3 0 0 2) (Vec3 0 0 3) (Vec3 0 0 4) out0)) = Vec3 0 0 0 \<and>
   (\<exists>b. irt_hit (Vec3 0 0 2) (origin (objectRay stretched_geom ray_far))
          (direction (objectRay stretched_geom ray_far)) tri1 tri2 tri3 = Some b \<and>
        intersectionPoint (snd (triangleInteractionTest (irt_hit (Vec3 0 0 2)) stretched_geom
          ray_far tri1 tri2 tri3 (Vec3 0 0 2) (Vec3 0 0 3) (Vec3 0 0 4) out0)) =
          multiplyMV (transform stretched_geom) (vec4of (bary_position b tri1 tri2 tri3) 1)) \<and>
   fst (triangleInteractionTest (irt_hit (Vec3 0 0 2)) stretched_geom ray_far
          tri1 tri2 tri3 (Vec3 0 0 2) (Vec3 0 0 3) (Vec3 0 0 4) out0) =
     glm_length (origin ray_far - intersectionPoint
       (snd (triangleInteractionTest (irt_hit (Vec3 0 0 2)) stretched_geom ray_far
          tri1 tri2 tri3 (Vec3 0 0 2) (Vec3 0 0 3) (Vec3 0 0 4) out0))) \<and>
   fst (triangleInteractionTest (irt_hit (Vec3 0 0 2)) stretched_geom ray_far
          tri1 tri2 tri3 (Vec3 0 0 2) (Vec3 0 0 3) (Vec3 0 0 4) out0) = 4 \<and>
   fst (triangleInteractionTest (irt_hit (Vec3 0 0 2)) stretched_geom ray_far
          tri1 tri2 tri3 (Vec3 0 0 2) (Vec3 0 0 3) (Vec3 0 0 4) out0) \<noteq> vz (Vec3 0 0 2)"
proof -
  have a: "0 \<le> fst (boxIntersectionTest stretched_geom ray_far out0)"
    "box_t stretched_geom ray_far = 1.5"
    "intersectionPoint (snd (boxIntersectionTest stretched_geom ray_far out0)) =
       Vec3 0 0 (- 1.0002)"
    "fst (boxIntersectionTest stretched_geom ray_far out0) = 2.9998"
    "0 \<le> fst (sphereIntersectionTest stretched_geom ray_far out0)"
    "sphere_t stretched_geom ray_far = 1.5"
    "intersectionPoint (snd (sphereIntersectionTest stretched_geom ray_far out0)) =
       Vec3 0 0 (- 1.0002)"
    "fst (sphereIntersectionTest stretched_geom ray_far out0) = 2.9998"
    "0 \<le> fst (triangleInteractionTest (irt_hit (Vec3 0 0 2)) stretched_geom ray_far
              tri1 tri2 tri3 (Vec3 0 0 2) (Vec3 0 0 3) (Vec3 0 0 4) out0)"
    "intersectionPoint (snd (triangleInteractionTest (irt_hit (Vec3 0 0 2)) stretched_geom
       ray_far tri1 tri2 tri3 (Vec3 0 0 2) (Vec3 0 0 3) (Vec3 0 0 4) out0)) = Vec3 0 0 0"
    "fst (triangleInteractionTest (irt_hit (Vec3 0 0 2)) stretched_geom ray_far
          tri1 tri2 tri3 (Vec3 0 0 2) (Vec3 0 0 3) (Vec3 0 0 4) out0) = 4"
    "fst (boxIntersectionTest stretched_geom ray_far out0) \<noteq> box_t stretched_geom ray_far"
    "fst (sphereIntersectionTest stretched_geom ray_far out0) \<noteq>
       sphere_t stretched_geom ray_far"
    "fst (triangleInteractionTest (irt_hit (Vec3 0 0 2)) stretched_geom ray_far
          tri1 tri2 tri3 (Vec3 0 0 2) (Vec3 0 0 3) (Vec3 0 0 4) out0) \<noteq> vz (Vec3 0 0 2)"
    by (simp_all add: box_far_value sphere_far_value tri_far_value box_t_far sphere_t_far)
  have b: "irt_hit (Vec3 0 0 2) (origin (objectRay stretched_geom ray_far))
       (direction (objectRay stretched_geom ray_far)) tri1 tri2 tri3 = Some (Vec3 0 0 2)"
    by (simp add: irt_hit_def)
  show ?thesis
    using a b
      hit_returns_world_distance
        [of stretched_geom ray_far out0 "irt_hit (Vec3 0 0 2)" tri1 tri2 tri3
          "Vec3 0 0 2" "Vec3 0 0 3" "Vec3 0 0 4"]
    by blast
qed


section \<open>The unit box seen from \<open>(0, 0, -2)\<close>\<close>

text \<open>
  Claim C4, as stated: the returned distance for the ray from \<open>(0, 0, -2)\<close> toward
  \<open>(0, 0, 1)\<close> is exactly \<open>1.5\<close>. It is not: the hit point is evaluated at
  \<open>t - 0.0001\<close>.
\<close>

theorem box_front_ray_distance_not_1_5:
  "fst (boxIntersectionTest identity_geom
          \<lparr>origin = Vec3 0 0 (- 2), direction = Vec3 0 0 1\<rparr> out0) \<noteq> 1.5"
  using box_front_value [of out0] by (simp add: ray_front_def)

text \<open>
  Claim C4, amended. For the unit box at the identity transform, the ray from
  \<open>(0, 0, -2)\<close> toward \<open>(0, 0, 1)\<close> hits with returned distance \<open>1.5 - 0.0001 = 1.4999\<close>,
  hit point \<open>(0, 0, -0.5001)\<close>, normal \<open>(0, 0, -1)\<close> and \<open>outside = true\<close>, whatever the
  output channels held before.
\<close>

theorem box_front_ray_hit:
  "boxIntersectionTest identity_geom \<lparr>origin = Vec3 0 0 (- 2), direction = Vec3 0 0 1\<rparr> out =
     (1.5 - 0.0001,
      \<lparr>intersectionPoint = Vec3 0 0 (- 0.5001), normal = Vec3 0 0 (- 1), outside = True\<rparr>)"
  using box_front_value [of out] by (simp add: ray_front_def)

section \<open>The decisions of the box and sphere testers\<close>

text \<open>
  Claim C2. \<^verbatim>\<open>boxIntersectionTest\<close> reports a hit exactly when, after the slab pass over
  the three axes of the object-space ray, \<open>tmax \<ge> tmin\<close> and \<open>tmax > 0\<close>. On a hit with
  \<open>tmin \<le> 0\<close> it writes \<open>outside = false\<close>, the point at the exit parameter \<open>tmax\<close>
  and the normal from \<open>tmax_n\<close>; on a hit with \<open>tmin > 0\<close> it writes \<open>outside = true\<close>,
  the point at the entry parameter \<open>tmin\<close> and the normal from \<open>tmin_n\<close>. The parameter
  used is a finite number in both cases.
\<close>

theorem box_hit_decision:
  "(0 \<le> fst (boxIntersectionTest box r out) \<longleftrightarrow>
      xle (tmin (slab_pass (objectRay box r))) (tmax (slab_pass (objectRay box r))) \<and>
      xlt (Fin 0) (tmax (slab_pass (objectRay box r)))) \<and>
   (0 \<le> fst (boxIntersectionTest box r out) \<and>
      xle (tmin (slab_pass (objectRay box r))) (Fin 0) \<longrightarrow>
      (\<exists>t. tmax (slab_pass (objectRay box r)) = Fin t \<and>
         snd (boxIntersectionTest box r out) =
           \<lparr>intersectionPoint =
              multiplyMV (transform box) (vec4of (getPointOnRay (objectRay box r) t) 1),
            normal = glm_normalize
              (multiplyMV (invTranspose box) (vec4of (tmax_n (slab_pass (objectRay box r))) 0)),
            outside = False\<rparr>)) \<and>
   (0 \<le> fst (boxIntersectionTest box r out) \<and>
      \<not> xle (tmin (slab_pass (objectRay box r))) (Fin 0) \<longrightarrow>
      (\<exists>t. tmin (slab_pass (objectRay box r)) = Fin t \<and>
         snd (boxIntersectionTest box r out) =
           \<lparr>intersectionPoint =
              multiplyMV (transform box) (vec4of (getPointOnRay (objectRay box r) t) 1),
            normal = glm_normalize
              (multiplyMV (invTranspose box) (vec4of (tmin_n (slab_pass (objectRay box r))) 0)),
            outside = True\<rparr>))"
proof -
  let ?s = "slab_pass (objectRay box r)"
  let ?hit = "xle (tmin ?s) (tmax ?s) \<and> xlt (Fin 0) (tmax ?s)"
  have fin: "\<exists>a b. tmin ?s = Fin a \<and> tmax ?s = Fin b" if ?hit
    using that slab_hit_finite by blast
  have inside: "snd (boxIntersectionTest box r out) =
      \<lparr>intersectionPoint = multiplyMV (transform box)
         (vec4of (getPointOnRay (objectRay box r) (fin_val (tmax ?s))) 1),
       normal = glm_normalize (multiplyMV (invTranspose box) (vec4of (tmax_n ?s) 0)),
       outside = False\<rparr>"
    if ?hit "xle (tmin ?s) (Fin 0)"
    using that by (simp add: boxIntersectionTest_def Let_def)
  have outside: "snd (boxIntersectionTest box r out) =
      \<lparr>intersectionPoint = multiplyMV (transform box)
         (vec4of (getPointOnRay (objectRay box r) (fin_val (tmin ?s))) 1),
       normal = glm_normalize (multiplyMV (invTranspose box) (vec4of (tmin_n ?s) 0)),
       outside = True\<rparr>"
    if ?hit "\<not> xle (tmin ?s) (Fin 0)"
    using that by (simp add: boxIntersectionTest_def Let_def)
  show ?thesis
  proof (intro conjI impI)
    show "0 \<le> fst (boxIntersectionTest box r out) \<longleftrightarrow> ?hit"
      by (rule box_hit_iff)
  next
    assume a: "0 \<le> fst (boxIntersectionTest box r out) \<and> xle (tmin ?s) (Fin 0)"
    then have h: ?hit
      using box_hit_iff by blast
    from fin [OF h] obtain a0 b0 where "tmin ?s = Fin a0" "tmax ?s = Fin b0"
      by blast
    then show "\<exists>t. tmax ?s = Fin t \<and> snd (boxIntersectionTest box r out) =
        \<lparr>intersectionPoint =
           multiplyMV (transform box) (vec4of (getPointOnRay (objectRay box r) t) 1),
         normal = glm_normalize (multiplyMV (invTranspose box) (vec4of (tmax_n ?s) 0)),
         outside = False\<rparr>"
      using inside [OF h] a by simp
  next
    assume a: "0 \<le> fst (boxIntersectionTest box r out) \<and> \<not> xle (tmin ?s) (Fin 0)"
    then have h: ?hit
      using box_hit_iff by blast
    from fin [OF h] obtain a0 b0 where "tmin ?s = Fin a0" "tmax ?s = Fin b0"
      by blast
    then show "\<exists>t. tmin ?s = Fin t \<and> snd (boxIntersectionTest box r out) =
        \<lparr>intersectionPoint =
           multiplyMV (transform box) (vec4of (getPointOnRay (objectRay box r) t) 1),
         normal = glm_normalize (multiplyMV (invTranspose box) (vec4of (tmin_n ?s) 0)),
         outside = True\<rparr>"
      using outside [OF h] a by simp
  qed
qed

text \<open>The ray from the centre of the unit box leaves through the face \<open>z = 0.5\<close>
  (\<open>tmin \<le> 0\<close>); the ray from \<open>(0, 0, -2)\<close> enters through \<open>z = -0.5\<close>.\<close>

theorem box_hit_decision_witness:
  "0 \<le> fst (boxIntersectionTest identity_geom ray_centre out0) \<and>
   xle (tmin (slab_pass (objectRay identity_geom ray_centre))) (Fin 0) \<and>
   tmax (slab_pass (objectRay identity_geom ray_centre)) = Fin (1 / 2) \<and>
   outside (snd (boxIntersectionTest identity_geom ray_centre out0)) = False \<and>
   0 \<le> fst (boxIntersectionTest identity_geom ray_front out0) \<and>
   \<not> xle (tmin (slab_pass (objectRay identity_geom ray_front))) (Fin 0) \<and>
   tmin (slab_pass (objectRay identity_geom ray_front)) = Fin (3 / 2) \<and>
   outside (snd (boxIntersectionTest identity_geom ray_front out0)) = True"
  using box_hit_decision [of identity_geom ray_centre out0]
    box_hit_decision [of identity_geom ray_front out0]
  by (auto simp add: ray_centre_def ray_front_def glm_normalize_unit_z slab_pass_centre
      slab_pass_front)

text \<open>
  The branches of the sphere tester. With \<open>b\<close>, \<open>c\<close>, the discriminant \<open>b\<^sup>2 - c\<close> and the
  roots \<open>t1 = -b + sqrt disc\<close>, \<open>t2 = -b - sqrt disc\<close> of the object-space ray against the
  sphere of radius 0.5: \<^verbatim>\<open>sphereIntersectionTest\<close> returns \<open>-1\<close> (outputs untouched) when
  the discriminant is negative or both roots are negative; when both roots are positive
  it takes the smaller root \<open>t2\<close> and writes \<open>outside = true\<close>; otherwise it takes the
  larger root \<open>t1\<close>, writes \<open>outside = false\<close> and negates the world-space normal. Where
  the negated normal points is the subject of the theorem after the examples.
\<close>

lemma sphere_cases:
  "(sphere_disc (objectRay sphere r) < 0 \<or>
      (sphere_t1 (objectRay sphere r) < 0 \<and> sphere_t2 (objectRay sphere r) < 0) \<longrightarrow>
      sphereIntersectionTest sphere r out = (- 1, out)) \<and>
   (0 \<le> sphere_disc (objectRay sphere r) \<and>
      0 < sphere_t1 (objectRay sphere r) \<and> 0 < sphere_t2 (objectRay sphere r) \<longrightarrow>
      sphere_t2 (objectRay sphere r) \<le> sphere_t1 (objectRay sphere r) \<and>
      snd (sphereIntersectionTest sphere r out) =
        \<lparr>intersectionPoint = multiplyMV (transform sphere)
           (vec4of (getPointOnRay (objectRay sphere r) (sphere_t2 (objectRay sphere r))) 1),
         normal = glm_normalize (multiplyMV (invTranspose sphere)
           (vec4of (getPointOnRay (objectRay sphere r) (sphere_t2 (objectRay sphere r))) 0)),
         outside = True\<rparr>) \<and>
   (0 \<le> sphere_disc (objectRay sphere r) \<and>
      \<not> (sphere_t1 (objectRay sphere r) < 0 \<and> sphere_t2 (objectRay sphere r) < 0) \<and>
      \<not> (0 < sphere_t1 (objectRay sphere r) \<and> 0 < sphere_t2 (objectRay sphere r)) \<longrightarrow>
      sphere_t2 (objectRay sphere r) \<le> sphere_t1 (objectRay sphere r) \<and>
      snd (sphereIntersectionTest sphere r out) =
        \<lparr>intersectionPoint = multiplyMV (transform sphere)
           (vec4of (getPointOnRay (objectRay sphere r) (sphere_t1 (objectRay sphere r))) 1),
         normal = - glm_normalize (multiplyMV (invTranspose sphere)
           (vec4of (getPointOnRay (objectRay sphere r) (sphere_t1 (objectRay sphere r))) 0)),
         outside = False\<rparr>)"
proof -
  let ?rt = "objectRay sphere r"
  have miss: "sphereIntersectionTest sphere r out = (- 1, out)"
    if "sphere_disc ?rt < 0 \<or> (sphere_t1 ?rt < 0 \<and> sphere_t2 ?rt < 0)"
    using that by (auto simp add: sphere_unfold Let_def)
  have near: "snd (sphereIntersectionTest sphere r out) =
        \<lparr>intersectionPoint = multiplyMV (transform sphere)
           (vec4of (getPointOnRay ?rt (sphere_t2 ?rt)) 1),
         normal = glm_normalize (multiplyMV (invTranspose sphere)
           (vec4of (getPointOnRay ?rt (sphere_t2 ?rt)) 0)),
         outside = True\<rparr>"
    if "0 \<le> sphere_disc ?rt" "0 < sphere_t1 ?rt" "0 < sphere_t2 ?rt"
  proof -
    have m: "min (sphere_t1 ?rt) (sphere_t2 ?rt) = sphere_t2 ?rt"
      using sphere_roots_ordered [OF that(1)] by simp
    have e0: "(sphere_disc ?rt < 0) = False"
      using that(1) by simp
    have e1: "(sphere_t1 ?rt < 0 \<and> sphere_t2 ?rt < 0) = False"
      using that(2) by simp
    have e2: "(0 < sphere_t1 ?rt \<and> 0 < sphere_t2 ?rt) = True"
      using that(2,3) by simp
    show ?thesis
      unfolding sphere_unfold Let_def e0 e1 e2 m by simp
  qed
  have far: "snd (sphereIntersectionTest sphere r out) =
        \<lparr>intersectionPoint = multiplyMV (transform sphere)
           (vec4of (getPointOnRay ?rt (sphere_t1 ?rt)) 1),
         normal = - glm_normalize (multiplyMV (invTranspose sphere)
           (vec4of (getPointOnRay ?rt (sphere_t1 ?rt)) 0)),
         outside = False\<rparr>"
    if "0 \<le> sphere_disc ?rt" "\<not> (sphere_t1 ?rt < 0 \<and> sphere_t2 ?rt < 0)"
      "\<not> (0 < sphere_t1 ?rt \<and> 0 < sphere_t2 ?rt)"
  proof -
    have m: "max (sphere_t1 ?rt) (sphere_t2 ?rt) = sphere_t1 ?rt"
      using sphere_roots_ordered [OF that(1)] by simp
    have e0: "(sphere_disc ?rt < 0) = False"
      using that(1) by simp
    have e1: "(sphere_t1 ?rt < 0 \<and> sphere_t2 ?rt < 0) = False"
      using that(2) by simp
    have e2: "(0 < sphere_t1 ?rt \<and> 0 < sphere_t2 ?rt) = False"
      using that(3) by simp
    show ?thesis
      unfolding sphere_unfold Let_def e0 e1 e2 m by simp
  qed
  show ?thesis
    using miss near far sphere_roots_ordered [of ?rt] by blast
qed

text \<open>A ray beside the sphere (negative discriminant), the ray from \<open>(0, 0, -2)\<close>
  (roots 2.5 and 1.5) and the ray from the centre (roots 0.5 and -0.5).\<close>

lemma sphere_cases_examples:
  "sphere_disc (objectRay identity_geom ray_beside) < 0 \<and>
   sphereIntersectionTest identity_geom ray_beside out0 = (- 1, out0) \<and>
   0 \<le> sphere_disc (objectRay identity_geom ray_front) \<and>
   0 < sphere_t1 (objectRay identity_geom ray_front) \<and>
   0 < sphere_t2 (objectRay identity_geom ray_front) \<and>
   outside (snd (sphereIntersectionTest identity_geom ray_front out0)) = True \<and>
   0 \<le> sphere_disc (objectRay identity_geom ray_centre) \<and>
   \<not> (sphere_t1 (objectRay identity_geom ray_centre) < 0 \<and>
      sphere_t2 (objectRay identity_geom ray_centre) < 0) \<and>
   \<not> (0 < sphere_t1 (objectRay identity_geom ray_centre) \<and>
      0 < sphere_t2 (objectRay identity_geom ray_centre)) \<and>
   outside (snd (sphereIntersectionTest identity_geom ray_centre out0)) = False"
  using sphere_cases [of identity_geom ray_beside out0]
    sphere_cases [of identity_geom ray_front out0]
    sphere_cases [of identity_geom ray_centre out0]
  by (simp add: ray_beside_def ray_front_def ray_centre_def glm_normalize_unit_z
      sphere_beside_disc sphere_front_roots sphere_centre_roots)






section \<open>A zero direction component in the slab loop\<close>

lemma slab_axis_dead: "slab_dead s \<Longrightarrow> slab_dead (slab_axis q xyz s)"
  unfolding slab_dead_def slab_axis_def Let_def by auto

lemma slab_fold_dead: "slab_dead s \<Longrightarrow> slab_dead (fold (slab_axis q) xs s)"
  by (induction xs arbitrary: s) (simp_all add: slab_axis_dead)

lemma slab_axis_outside_dead:
  assumes "vidx (direction q) xyz = 0"
    and "vidx (origin q) xyz < - 0.5 \<or> 0.5 < vidx (origin q) xyz"
    and "slab_bounds_ok s"
  shows "slab_dead (slab_axis q xyz s)"
proof -
  from assms(3) have ok: "tmax s \<noteq> PInf" "tmax s \<noteq> NaN" "tmin s \<noteq> MInf" "tmin s \<noteq> NaN"
    by (simp_all add: slab_bounds_ok_def)
  from assms(2) show ?thesis
  proof
    assume "vidx (origin q) xyz < - 0.5"
    then show ?thesis
      using assms(1) ok
      by (cases "tmin s"; cases "tmax s")
        (simp_all add: slab_dead_def slab_axis_def Let_def fdiv_def glm_min_def glm_max_def)
  next
    assume "0.5 < vidx (origin q) xyz"
    then show ?thesis
      using assms(1) ok
      by (cases "tmin s"; cases "tmax s")
        (simp_all add: slab_dead_def slab_axis_def Let_def fdiv_def glm_min_def glm_max_def)
  qed
qed

lemma slab_pass_outside_dead:
  assumes "xyz < 3"
    and "vidx (direction q) xyz = 0"
    and "vidx (origin q) xyz < - 0.5 \<or> 0.5 < vidx (origin q) xyz"
  shows "slab_dead (slab_pass q)"
proof -
  have ok0: "slab_bounds_ok slab_init"
    by (simp add: slab_bounds_ok_def slab_init_def)
  have "xyz = 0 \<or> xyz = 1 \<or> xyz = 2"
    using assms(1) by auto
  then show ?thesis
  proof (elim disjE)
    assume "xyz = 0"
    then have "slab_dead (slab_axis q 0 slab_init)"
      using slab_axis_outside_dead [OF assms(2,3) ok0] by simp
    then show ?thesis
      using slab_fold_dead [of "slab_axis q 0 slab_init" q "[1, 2]"]
      by (simp add: slab_pass_def)
  next
    assume x: "xyz = 1"
    have "slab_bounds_ok (slab_axis q 0 slab_init)"
      by (rule slab_axis_bounds_ok [OF ok0])
    then have "slab_dead (slab_axis q 1 (slab_axis q 0 slab_init))"
      using slab_axis_outside_dead [OF assms(2,3)] x by simp
    then show ?thesis
      using slab_axis_dead by (simp add: slab_pass_def)
  next
    assume x: "xyz = 2"
    have "slab_bounds_ok (slab_axis q 1 (slab_axis q 0 slab_init))"
      by (intro slab_axis_bounds_ok ok0)
    then have "slab_dead (slab_axis q 2 (slab_axis q 1 (slab_axis q 0 slab_init)))"
      using slab_axis_outside_dead [OF assms(2,3)] x by simp
    then show ?thesis
      by (simp add: slab_pass_def)
  qed
qed

lemma box_miss_of_dead:
  assumes "slab_dead (slab_pass (objectRay box r))"
  shows "boxIntersectionTest box r out = (- 1, out)"
proof -
  let ?s = "slab_pass (objectRay box r)"
  have "\<not> (xle (tmin ?s) (tmax ?s) \<and> xlt (Fin 0) (tmax ?s))"
    using assms slab_pass_bounds_ok [of "objectRay box r"]
    by (cases "tmin ?s"; cases "tmax ?s") (auto simp add: slab_dead_def slab_bounds_ok_def)
  then have "(xle (tmin ?s) (tmax ?s) \<and> xlt (Fin 0) (tmax ?s)) = False"
    by blast
  then show ?thesis
    unfolding boxIntersectionTest_def Let_def by (simp only: if_False)
qed


lemma slab_pass_edge:
  "slab_pass \<lparr>origin = Vec3 (1 / 2) (- (1 / 2)) (- 2), direction = Vec3 0 0 1\<rparr> =
     \<lparr>tmin = PInf, tmax = Fin (5 / 2),
      tmin_n = Vec3 0 (- 1) 0, tmax_n = Vec3 0 0 (- 1)\<rparr>"
  by (simp add: slab_eval)

lemma slab_z_only_edge:
  "slab_axis \<lparr>origin = Vec3 (1 / 2) (- (1 / 2)) (- 2), direction = Vec3 0 0 1\<rparr> 2
     slab_init =
     \<lparr>tmin = Fin (3 / 2), tmax = Fin (5 / 2),
      tmin_n = Vec3 0 0 (- 1), tmax_n = Vec3 0 0 (- 1)\<rparr>"
  by (simp add: slab_eval)

lemma box_edge_value: "boxIntersectionTest identity_geom ray_edge out = (- 1, out)"
  by (simp add: boxIntersectionTest_def ray_edge_def glm_normalize_unit_z slab_pass_edge)

text \<open>
  Claim C9, as stated: with a zero direction component on an axis and the origin inside
  the slab \<open>[-0.5, 0.5]\<close> of that axis, the hit decision is the one the other axes give.
  For the ray along the edge of the unit box where the faces \<open>x = 0.5\<close> and \<open>y = -0.5\<close>
  meet, the \<open>x\<close> and \<open>y\<close> components of the direction are zero and the origin is in
  both slabs, on their boundary planes. One quotient on each of these axes is \<open>0 / 0\<close>,
  the other an infinity; on the \<open>y\<close> axis \<^verbatim>\<open>glm::min\<close> and \<^verbatim>\<open>glm::max\<close> return \<open>+\<infinity>\<close>,
  \<^verbatim>\<open>tmin\<close> becomes \<open>+\<infinity>\<close> and the tester reports a miss, although the pass over the \<open>z\<close>
  axis alone passes the hit test. (With the later definition of \<^verbatim>\<open>glm::min\<close> and
  \<^verbatim>\<open>glm::max\<close> the \<open>x\<close> axis sets \<^verbatim>\<open>tmax\<close> to \<open>-\<infinity>\<close> instead, with the same miss.)
\<close>

theorem box_edge_ray_missed:
  "vidx (direction (objectRay identity_geom ray_edge)) 0 = 0 \<and>
   vidx (direction (objectRay identity_geom ray_edge)) 1 = 0 \<and>
   - 0.5 \<le> vidx (origin (objectRay identity_geom ray_edge)) 0 \<and>
   vidx (origin (objectRay identity_geom ray_edge)) 0 \<le> 0.5 \<and>
   - 0.5 \<le> vidx (origin (objectRay identity_geom ray_edge)) 1 \<and>
   vidx (origin (objectRay identity_geom ray_edge)) 1 \<le> 0.5 \<and>
   xle (tmin (fold (slab_axis (objectRay identity_geom ray_edge)) [2] slab_init))
       (tmax (fold (slab_axis (objectRay identity_geom ray_edge)) [2] slab_init)) \<and>
   xlt (Fin 0) (tmax (fold (slab_axis (objectRay identity_geom ray_edge)) [2] slab_init)) \<and>
   boxIntersectionTest identity_geom ray_edge out0 = (- 1, out0)"
  by (simp add: box_edge_value)
    (simp add: ray_edge_def glm_normalize_unit_z slab_z_only_edge vidx_def)


text \<open>
  Claim C9, amended. Let the object-space direction have a zero component on an axis.
  When the origin lies strictly between the two planes of that axis, the two divisions
  of the slab step give \<open>-\<infinity>\<close> and \<open>+\<infinity>\<close>, neither comparison of the step succeeds, and
  the step leaves \<open>tmin\<close>, \<open>tmax\<close> and both normals as they were: the slab pass is the
  pass over the other two axes, so the hit decision and the parameter chosen do not see
  the division. When the origin lies strictly outside the two planes, where no point of
  the ray is in the box, both quotients are the same infinity and the tester reports a
  miss. Nothing is stated for an origin exactly on one of the planes.
\<close>

theorem slab_zero_direction_component:
  assumes "xyz < 3"
    and "vidx (direction (objectRay box r)) xyz = 0"
  shows
    "(- 0.5 < vidx (origin (objectRay box r)) xyz \<and> vidx (origin (objectRay box r)) xyz < 0.5 \<longrightarrow>
        fdiv (- 0.5 - vidx (origin (objectRay box r)) xyz)
          (vidx (direction (objectRay box r)) xyz) = MInf \<and>
        fdiv (0.5 - vidx (origin (objectRay box r)) xyz)
          (vidx (direction (objectRay box r)) xyz) = PInf \<and>
        slab_axis (objectRay box r) xyz s = s \<and>
        slab_pass (objectRay box r) =
          fold (slab_axis (objectRay box r)) (filter (\<lambda>i. i \<noteq> xyz) [0, 1, 2]) slab_init) \<and>
     (vidx (origin (objectRay box r)) xyz < - 0.5 \<or> 0.5 < vidx (origin (objectRay box r)) xyz \<longrightarrow>
        boxIntersectionTest box r out = (- 1, out))"
proof (intro conjI impI)
  let ?q = "objectRay box r"
  assume a: "- 0.5 < vidx (origin ?q) xyz \<and> vidx (origin ?q) xyz < 0.5"
  have step: "slab_axis ?q xyz s' = s'" for s'
    using assms(2) a by (simp add: fdiv_def slab_axis_def Let_def glm_min_def glm_max_def)
  show "fdiv (- 0.5 - vidx (origin ?q) xyz) (vidx (direction ?q) xyz) = MInf"
    using assms(2) a by (simp add: fdiv_def)
  show "fdiv (0.5 - vidx (origin ?q) xyz) (vidx (direction ?q) xyz) = PInf"
    using assms(2) a by (simp add: fdiv_def)
  show "slab_axis ?q xyz s = s"
    by (rule step)
  have "xyz = 0 \<or> xyz = 1 \<or> xyz = 2"
    using assms(1) by auto
  then show "slab_pass ?q = fold (slab_axis ?q) (filter (\<lambda>i. i \<noteq> xyz) [0, 1, 2]) slab_init"
    using step by (auto simp add: slab_pass_def)
next
  assume "vidx (origin (objectRay box r)) xyz < - 0.5 \<or>
      0.5 < vidx (origin (objectRay box r)) xyz"
  then show "boxIntersectionTest box r out = (- 1, out)"
    using slab_pass_outside_dead [OF assms] box_miss_of_dead by blast
qed

text \<open>The ray from \<open>(0, 0, -2)\<close> along \<open>z\<close> has no \<open>x\<close> component and starts between the
  planes \<open>x = \<plusminus>0.5\<close>; the ray from \<open>(2, 0, 0)\<close> along \<open>z\<close> starts outside them.\<close>

theorem slab_zero_direction_component_witness:
  "(0::nat) < 3 \<and> vidx (direction (objectRay identity_geom ray_front)) 0 = 0 \<and>
   - 0.5 < vidx (origin (objectRay identity_geom ray_front)) 0 \<and>
   vidx (origin (objectRay identity_geom ray_front)) 0 < 0.5 \<and>
   slab_axis (objectRay identity_geom ray_front) 0 slab_init = slab_init \<and>
   slab_pass (objectRay identity_geom ray_front) =
     fold (slab_axis (objectRay identity_geom ray_front)) [1, 2] slab_init \<and>
   vidx (direction (objectRay identity_geom ray_beside)) 0 = 0 \<and>
   0.5 < vidx (origin (objectRay identity_geom ray_beside)) 0 \<and>
   boxIntersectionTest identity_geom ray_beside out0 = (- 1, out0)"
  using slab_zero_direction_component [of 0 identity_geom ray_front slab_init out0]
    slab_zero_direction_component [of 0 identity_geom ray_beside slab_init out0]
  by (simp add: ray_front_def ray_beside_def glm_normalize_unit_z vidx_def)

section \<open>Corner normals and the smoothed normal of a triangle\<close>

text \<open>
  Claim C7. \<^verbatim>\<open>has_normal\<close> holds exactly when none of the three supplied normals is the
  zero vector, and then the corner normals are the supplied ones. Otherwise each corner
  normal is the normalised cross product of the two edges at that corner; for a triangle
  that is not degenerate these are \<open>f\<close>, \<open>-f\<close> and \<open>f\<close> for the unit vector \<open>f\<close> of the
  first corner: equal up to sign.
\<close>

theorem corner_normals:
  "(has_normal normal1 normal2 normal3 \<longleftrightarrow> normal1 \<noteq> 0 \<and> normal2 \<noteq> 0 \<and> normal3 \<noteq> 0) \<and>
   (has_normal normal1 normal2 normal3 \<longrightarrow>
      cornerNormals vertex1 vertex2 vertex3 normal1 normal2 normal3 =
        (normal1, normal2, normal3)) \<and>
   (\<not> has_normal normal1 normal2 normal3 \<longrightarrow>
      cornerNormals vertex1 vertex2 vertex3 normal1 normal2 normal3 =
        (glm_normalize (glm_cross (vertex2 - vertex1) (vertex3 - vertex1)),
         glm_normalize (glm_cross (vertex1 - vertex2) (vertex3 - vertex2)),
         glm_normalize (glm_cross (vertex1 - vertex3) (vertex2 - vertex3)))) \<and>
   (\<not> has_normal normal1 normal2 normal3 \<and>
      glm_cross (vertex2 - vertex1) (vertex3 - vertex1) \<noteq> 0 \<longrightarrow>
      glm_length (glm_normalize (glm_cross (vertex2 - vertex1) (vertex3 - vertex1))) = 1 \<and>
      cornerNormals vertex1 vertex2 vertex3 normal1 normal2 normal3 =
        (glm_normalize (glm_cross (vertex2 - vertex1) (vertex3 - vertex1)),
         - glm_normalize (glm_cross (vertex2 - vertex1) (vertex3 - vertex1)),
         glm_normalize (glm_cross (vertex2 - vertex1) (vertex3 - vertex1))))"
proof (intro conjI impI)
  show "has_normal normal1 normal2 normal3 \<longleftrightarrow> normal1 \<noteq> 0 \<and> normal2 \<noteq> 0 \<and> normal3 \<noteq> 0"
    by (simp add: has_normal_def glm_length_zero_iff)
next
  assume "has_normal normal1 normal2 normal3"
  then show "cornerNormals vertex1 vertex2 vertex3 normal1 normal2 normal3 =
      (normal1, normal2, normal3)"
    by (simp add: cornerNormals_def)
next
  assume "\<not> has_normal normal1 normal2 normal3"
  then show "cornerNormals vertex1 vertex2 vertex3 normal1 normal2 normal3 =
        (glm_normalize (glm_cross (vertex2 - vertex1) (vertex3 - vertex1)),
         glm_normalize (glm_cross (vertex1 - vertex2) (vertex3 - vertex2)),
         glm_normalize (glm_cross (vertex1 - vertex3) (vertex2 - vertex3)))"
    by (simp add: cornerNormals_def)
next
  assume a: "\<not> has_normal normal1 normal2 normal3 \<and>
      glm_cross (vertex2 - vertex1) (vertex3 - vertex1) \<noteq> 0"
  then show "glm_length (glm_normalize (glm_cross (vertex2 - vertex1) (vertex3 - vertex1))) = 1"
    by (simp add: glm_length_normalize)
  have "glm_normalize (glm_cross (vertex1 - vertex2) (vertex3 - vertex2)) =
        - glm_normalize (glm_cross (vertex2 - vertex1) (vertex3 - vertex1))"
    by (simp only: cross_corner2 [of vertex1 vertex2 vertex3] glm_normalize_uminus)
  moreover have "glm_normalize (glm_cross (vertex1 - vertex3) (vertex2 - vertex3)) =
        glm_normalize (glm_cross (vertex2 - vertex1) (vertex3 - vertex1))"
    by (simp only: cross_corner3 [of vertex1 vertex3 vertex2])
  ultimately show "cornerNormals vertex1 vertex2 vertex3 normal1 normal2 normal3 =
        (glm_normalize (glm_cross (vertex2 - vertex1) (vertex3 - vertex1)),
         - glm_normalize (glm_cross (vertex2 - vertex1) (vertex3 - vertex1)),
         glm_normalize (glm_cross (vertex2 - vertex1) (vertex3 - vertex1)))"
    using a by (simp add: cornerNormals_def)
qed


text \<open>The flat triangle of the fixtures, once with the sentinel normals and once with
  three supplied normals of length 2.\<close>

theorem corner_normals_witness:
  "has_normal (Vec3 0 0 2) (Vec3 0 0 2) (Vec3 0 0 2) \<and>
   cornerNormals tri1 tri2 tri3 (Vec3 0 0 2) (Vec3 0 0 2) (Vec3 0 0 2) =
     (Vec3 0 0 2, Vec3 0 0 2, Vec3 0 0 2) \<and>
   \<not> has_normal 0 (Vec3 0 0 2) (Vec3 0 0 2) \<and>
   glm_cross (tri2 - tri1) (tri3 - tri1) \<noteq> 0 \<and>
   cornerNormals tri1 tri2 tri3 0 (Vec3 0 0 2) (Vec3 0 0 2) =
     (Vec3 0 0 1, Vec3 0 0 (- 1), Vec3 0 0 1)"
  using corner_normals [of "Vec3 0 0 2" "Vec3 0 0 2" "Vec3 0 0 2" tri1 tri2 tri3]
    corner_normals [of 0 "Vec3 0 0 2" "Vec3 0 0 2" tri1 tri2 tri3]
  by (simp add: tri1_def tri2_def tri3_def glm_cross_def vec3_defs glm_normalize_unit_z)

text \<open>
  Claim C8. For a triangle that is not degenerate and has supplied normals, a hit whose
  barycentric coordinates are one-hot lies on the vertex, the area-weighted normal
  \<^verbatim>\<open>smoothNormal\<close> there is that vertex's supplied normal, normalised, and the normal
  written is its image under \<^verbatim>\<open>invTranspose\<close>, normalised and turned by the final flip.
\<close>

theorem smoothed_normal_at_vertex:
  assumes "has_normal normal1 normal2 normal3"
    and "glm_cross (vertex1 - vertex2) (vertex3 - vertex2) \<noteq> 0"
    and "irt (origin (objectRay mesh r)) (direction (objectRay mesh r))
      vertex1 vertex2 vertex3 = Some b"
  shows
    "(vx b = 0 \<and> vy b = 0 \<longrightarrow>
        bary_position b vertex1 vertex2 vertex3 = vertex1 \<and>
        smoothNormal (bary_position b vertex1 vertex2 vertex3) vertex1 vertex2 vertex3
          normal1 normal2 normal3 = glm_normalize normal1 \<and>
        normal (snd (triangleInteractionTest irt mesh r vertex1 vertex2 vertex3
          normal1 normal2 normal3 out)) =
          flip_toward (glm_normalize (multiplyMV (invTranspose mesh)
            (vec4of (glm_normalize normal1) 0))) (direction r)) \<and>
     (vx b = 1 \<and> vy b = 0 \<longrightarrow>
        bary_position b vertex1 vertex2 vertex3 = vertex2 \<and>
        smoothNormal (bary_position b vertex1 vertex2 vertex3) vertex1 vertex2 vertex3
          normal1 normal2 normal3 = glm_normalize normal2 \<and>
        normal (snd (triangleInteractionTest irt mesh r vertex1 vertex2 vertex3
          normal1 normal2 normal3 out)) =
          flip_toward (glm_normalize (multiplyMV (invTranspose mesh)
            (vec4of (glm_normalize normal2) 0))) (direction r)) \<and>
     (vx b = 0 \<and> vy b = 1 \<longrightarrow>
        bary_position b vertex1 vertex2 vertex3 = vertex3 \<and>
        smoothNormal (bary_position b vertex1 vertex2 vertex3) vertex1 vertex2 vertex3
          normal1 normal2 normal3 = glm_normalize normal3 \<and>
        normal (snd (triangleInteractionTest irt mesh r vertex1 vertex2 vertex3
          normal1 normal2 normal3 out)) =
          flip_toward (glm_normalize (multiplyMV (invTranspose mesh)
            (vec4of (glm_normalize normal3) 0))) (direction r))"
  using smoothNormal_vertex [OF assms(1,2)] assms(3)
    tri_hit_normal [where irt = irt and mesh = mesh and r = r and b = b
      and ?vertex1.0 = vertex1 and ?vertex2.0 = vertex2 and ?vertex3.0 = vertex3]
  by (simp add: bary_position_one_hot)

text \<open>The rays that come straight down on the three vertices of the flat triangle, each
  with the hit reported at its vertex; the supplied normals point along \<open>z\<close> with
  lengths 2, 3 and 4.\<close>

theorem smoothed_normal_at_vertex_witness:
  "has_normal (Vec3 0 0 2) (Vec3 0 0 3) (Vec3 0 0 4) \<and>
   glm_cross (tri1 - tri2) (tri3 - tri2) \<noteq> 0 \<and>
   smoothNormal tri1 tri1 tri2 tri3 (Vec3 0 0 2) (Vec3 0 0 3) (Vec3 0 0 4) = Vec3 0 0 1 \<and>
   normal (snd (triangleInteractionTest (irt_hit (Vec3 0 0 1)) identity_geom (ray_down tri1)
     tri1 tri2 tri3 (Vec3 0 0 2) (Vec3 0 0 3) (Vec3 0 0 4) out0)) = Vec3 0 0 1 \<and>
   smoothNormal tri2 tri1 tri2 tri3 (Vec3 0 0 2) (Vec3 0 0 3) (Vec3 0 0 4) = Vec3 0 0 1 \<and>
   normal (snd (triangleInteractionTest (irt_hit (Vec3 1 0 1)) identity_geom (ray_down tri2)
     tri1 tri2 tri3 (Vec3 0 0 2) (Vec3 0 0 3) (Vec3 0 0 4) out0)) = Vec3 0 0 1 \<and>
   smoothNormal tri3 tri1 tri2 tri3 (Vec3 0 0 2) (Vec3 0 0 3) (Vec3 0 0 4) = Vec3 0 0 1 \<and>
   normal (snd (triangleInteractionTest (irt_hit (Vec3 0 1 1)) identity_geom (ray_down tri3)
     tri1 tri2 tri3 (Vec3 0 0 2) (Vec3 0 0 3) (Vec3 0 0 4) out0)) = Vec3 0 0 1"
proof -
  have h1: "has_normal (Vec3 0 0 2) (Vec3 0 0 3) (Vec3 0 0 4)"
    by (simp add: has_normal_def glm_length_axis_z)
  have h2: "glm_cross (tri1 - tri2) (tri3 - tri2) \<noteq> 0"
    by (simp add: tri1_def tri2_def tri3_def glm_cross_def vec3_defs)
  have h3: "irt_hit bb (origin (objectRay identity_geom (ray_down p)))
      (direction (objectRay identity_geom (ray_down p))) tri1 tri2 tri3 = Some bb" for bb p
    by (simp add: irt_hit_def)
  have f: "flip_toward (Vec3 0 0 1) (direction (ray_down p)) = Vec3 0 0 1" for p
    by (simp add: flip_toward_def ray_down_def glm_dot_def)
  note at_vertex = smoothed_normal_at_vertex
    [where mesh = identity_geom and out = out0
      and ?vertex1.0 = tri1 and ?vertex2.0 = tri2 and ?vertex3.0 = tri3
      and ?normal1.0 = "Vec3 0 0 2" and ?normal2.0 = "Vec3 0 0 3" and ?normal3.0 = "Vec3 0 0 4"]
  show ?thesis
    using h1 h2
      at_vertex [where irt = "irt_hit (Vec3 0 0 1)" and b = "Vec3 0 0 1" and r = "ray_down tri1",
        OF h1 h2 h3]
      at_vertex [where irt = "irt_hit (Vec3 1 0 1)" and b = "Vec3 1 0 1" and r = "ray_down tri2",
        OF h1 h2 h3]
      at_vertex [where irt = "irt_hit (Vec3 0 1 1)" and b = "Vec3 0 1 1" and r = "ray_down tri3",
        OF h1 h2 h3]
    by (auto simp add: glm_normalize_axis_z f)
qed

section \<open>The written normal and the incoming ray\<close>

lemma dot_transpose:
  "glm_dot (multiplyMV (mat_transpose A) (vec4of n 0)) d =
   glm_dot n (multiplyMV A (vec4of d 0))"
  by (simp add: glm_dot_def multiplyMV_def mat_transpose_def mat_mul_vec_def vec3of_def
      vec4of_def algebra_simps)

lemma glm_dot_zero_right [simp]: "glm_dot n 0 = 0"
  by (simp add: glm_dot_def zero_vec3_def)

lemma glm_dot_zero_left [simp]: "glm_dot 0 d = 0"
  by (simp add: glm_dot_def zero_vec3_def)

lemma multiplyMV_uminus:
  "multiplyMV m (vec4of (- p) 0) = - multiplyMV m (vec4of p 0)"
  by (simp add: multiplyMV_def mat_mul_vec_def vec3of_def vec4of_def uminus_vec3_def)

lemma glm_normalize_zero [simp]: "glm_normalize 0 = 0"
  by (simp add: glm_normalize_def smul_def zero_vec3_def)

lemma glm_normalize_idem: "glm_normalize (glm_normalize v) = glm_normalize v"
proof (cases "v = 0")
  case True
  then show ?thesis by simp
next
  case False
  have "glm_normalize (glm_normalize v) = smul 1 (glm_normalize v)"
    using glm_dot_normalize_self [OF False]
    by (simp add: glm_normalize_def [of "glm_normalize v"])
  then show ?thesis
    by (simp add: smul_def)
qed

text \<open>The sign of a dot product survives both normalisations: that of the object-space
  direction \<open>v\<close> and that of the world-space normal \<open>w\<close>.\<close>

lemma dot_sign_transfer:
  assumes "glm_dot n (glm_normalize v) \<le> 0"
    and "glm_dot w d = glm_dot n v"
  shows "glm_dot (glm_normalize w) d \<le> 0"
proof -
  have "glm_dot n v \<le> 0"
  proof (cases "v = 0")
    case True
    then show ?thesis by simp
  next
    case False
    then have "0 < sqrt (glm_dot v v)"
      using glm_dot_self_nonneg [of v] glm_dot_self_zero_iff [of v] by simp
    with assms(1) show ?thesis
      by (simp add: glm_dot_normalize_right divide_le_0_iff)
  qed
  then show ?thesis
    using assms(2) glm_dot_self_nonneg [of w]
    by (simp add: glm_dot_normalize_left divide_le_0_iff)
qed

lemma axis_normal_faces_ray:
  assumes "d = vidx dq xyz"
  shows "glm_dot (vset 0 xyz
           (if xlt (fdiv (0.5 - a) d) (fdiv (- 0.5 - a) d) then 1 else - 1)) dq \<le> 0"
proof (cases "d = 0")
  case True
  then show ?thesis
    using assms by (auto simp add: glm_dot_def vset_def vidx_def zero_vec3_def split: if_splits)
next
  case False
  have "xlt (fdiv (0.5 - a) d) (fdiv (- 0.5 - a) d) \<longleftrightarrow> d < 0"
    using False by (auto simp add: fdiv_def divide_less_cancel)
  then show ?thesis
    using assms False
    by (auto simp add: glm_dot_def vset_def vidx_def zero_vec3_def split: if_splits)
qed

lemma slab_axis_faces_ray: "faces_ray q s \<Longrightarrow> faces_ray q (slab_axis q xyz s)"
  using axis_normal_faces_ray
    [OF refl, where dq = "direction q" and xyz = xyz and a = "vidx (origin q) xyz"]
  unfolding faces_ray_def slab_axis_def Let_def by auto

lemma slab_fold_faces_ray: "faces_ray q s \<Longrightarrow> faces_ray q (fold (slab_axis q) xs s)"
  by (induction xs arbitrary: s) (simp_all add: slab_axis_faces_ray)

lemma slab_pass_faces_ray: "faces_ray q (slab_pass q)"
  unfolding slab_pass_def
  by (rule slab_fold_faces_ray) (simp add: faces_ray_def slab_init_def)

text \<open>
  Where the written normal does face the ray, in the exact arithmetic of the model
  (rounding is outside it): every hit of the box tester and every hit of the sphere
  tester with \<open>outside = true\<close> or with \<open>sqrt (b\<^sup>2 - c) \<ge> 0.0001\<close>, on a primitive whose
  \<^verbatim>\<open>invTranspose\<close> is the transpose of its \<^verbatim>\<open>inverseTransform\<close>; and every hit of the
  triangle tester, whose last statement tests the dot product.
\<close>

lemma box_normal_faces_ray:
  assumes "invTranspose g = mat_transpose (inverseTransform g)"
    and "0 \<le> fst (boxIntersectionTest g r out)"
  shows "glm_dot (normal (snd (boxIntersectionTest g r out))) (direction r) \<le> 0"
proof -
  let ?q = "objectRay g r"
  let ?s = "slab_pass ?q"
  let ?v = "multiplyMV (inverseTransform g) (vec4of (direction r) 0)"
  have dq: "direction ?q = glm_normalize ?v"
    by (simp add: objectRay_def)
  have f: "glm_dot (tmin_n ?s) (glm_normalize ?v) \<le> 0"
    "glm_dot (tmax_n ?s) (glm_normalize ?v) \<le> 0"
    using slab_pass_faces_ray [of ?q] by (simp_all add: faces_ray_def dq)
  have hit: "xle (tmin ?s) (tmax ?s) \<and> xlt (Fin 0) (tmax ?s)"
    using assms(2) box_hit_iff by blast
  show ?thesis
  proof (cases "xle (tmin ?s) (Fin 0)")
    case True
    then have "normal (snd (boxIntersectionTest g r out)) =
        glm_normalize (multiplyMV (mat_transpose (inverseTransform g)) (vec4of (tmax_n ?s) 0))"
      using hit assms(1) by (simp add: boxIntersectionTest_def Let_def)
    then show ?thesis
      using dot_sign_transfer [OF f(2) dot_transpose] by simp
  next
    case False
    then have "normal (snd (boxIntersectionTest g r out)) =
        glm_normalize (multiplyMV (mat_transpose (inverseTransform g)) (vec4of (tmin_n ?s) 0))"
      using hit assms(1) by (simp add: boxIntersectionTest_def Let_def)
    then show ?thesis
      using dot_sign_transfer [OF f(1) dot_transpose] by simp
  qed
qed

lemma tri_normal_faces_ray:
  assumes "0 \<le> fst (triangleInteractionTest irt g r v1 v2 v3 n1 n2 n3 out)"
  shows "glm_dot (normal (snd (triangleInteractionTest irt g r v1 v2 v3 n1 n2 n3 out)))
      (direction r) \<le> 0"
  using assms
  by (auto simp add: triangleInteractionTest_def Let_def glm_dot_uminus_left
      split: option.splits)

text \<open>The object-space hit point of the sphere tester against the unit direction.\<close>

lemma glm_dot_add_smul_left:
  "glm_dot (a + smul k u) d = glm_dot a d + k * glm_dot u d"
  by (simp add: glm_dot_def smul_def plus_vec3_def algebra_simps)

lemma sphere_point_dot_direction:
  assumes "direction rt = glm_normalize v" and "v \<noteq> 0"
  shows "glm_dot (getPointOnRay rt t) (direction rt) = sphere_b rt + (t - 0.0001)"
  using glm_dot_normalize_self [OF assms(2)]
  by (simp add: getPointOnRay_def glm_dot_add_smul_left assms(1) glm_normalize_idem
      sphere_b_def)

lemma sphere_normal_faces_ray:
  assumes "invTranspose g = mat_transpose (inverseTransform g)"
    and "0 \<le> fst (sphereIntersectionTest g r out)"
    and "outside (snd (sphereIntersectionTest g r out)) \<or>
      0.0001 \<le> sqrt (sphere_disc (objectRay g r))"
  shows "glm_dot (normal (snd (sphereIntersectionTest g r out))) (direction r) \<le> 0"
proof -
  let ?rt = "objectRay g r"
  let ?v = "multiplyMV (inverseTransform g) (vec4of (direction r) 0)"
  have dq: "direction ?rt = glm_normalize ?v"
    by (simp add: objectRay_def)
  have hit: "0 \<le> sphere_disc ?rt" "\<not> (sphere_t1 ?rt < 0 \<and> sphere_t2 ?rt < 0)"
    using assms(2) sphere_hit_iff by blast+
  have e0: "(sphere_disc ?rt < 0) = False" using hit(1) by simp
  have e1: "(sphere_t1 ?rt < 0 \<and> sphere_t2 ?rt < 0) = False" using hit(2) by simp
  have ord: "sphere_t2 ?rt \<le> sphere_t1 ?rt"
    using sphere_roots_ordered [OF hit(1)] .
  show ?thesis
  proof (cases "0 < sphere_t1 ?rt \<and> 0 < sphere_t2 ?rt")
    case True
    let ?p = "getPointOnRay ?rt (sphere_t2 ?rt)"
    have m: "min (sphere_t1 ?rt) (sphere_t2 ?rt) = sphere_t2 ?rt"
      using ord by simp
    have e2: "(0 < sphere_t1 ?rt \<and> 0 < sphere_t2 ?rt) = True"
      using True by simp
    have n: "normal (snd (sphereIntersectionTest g r out)) =
        glm_normalize (multiplyMV (mat_transpose (inverseTransform g)) (vec4of ?p 0))"
      unfolding sphere_unfold Let_def e0 e1 e2 m by (simp add: assms(1))
    have "glm_dot ?p (glm_normalize ?v) \<le> 0"
    proof (cases "?v = 0")
      case True
      then show ?thesis by simp
    next
      case False
      have "glm_dot ?p (direction ?rt) = - sqrt (sphere_disc ?rt) - 0.0001"
        using sphere_point_dot_direction [OF dq False] by (simp add: sphere_t2_def)
      moreover have "0 \<le> sqrt (sphere_disc ?rt)"
        using hit(1) by simp
      ultimately have "glm_dot ?p (direction ?rt) \<le> 0"
        by (simp del: real_sqrt_ge_0_iff)
      then show ?thesis
        by (simp only: dq)
    qed
    then show ?thesis
      using dot_sign_transfer [OF _ dot_transpose] n by simp
  next
    case False
    let ?p = "getPointOnRay ?rt (sphere_t1 ?rt)"
    have m: "max (sphere_t1 ?rt) (sphere_t2 ?rt) = sphere_t1 ?rt"
      using ord by simp
    have e2: "(0 < sphere_t1 ?rt \<and> 0 < sphere_t2 ?rt) = False"
      using False by simp
    have n: "normal (snd (sphereIntersectionTest g r out)) =
        glm_normalize (multiplyMV (mat_transpose (inverseTransform g)) (vec4of (- ?p) 0))"
      and o: "outside (snd (sphereIntersectionTest g r out)) = False"
      unfolding sphere_unfold Let_def e0 e1 e2 m
      by (simp_all add: assms(1) multiplyMV_uminus glm_normalize_uminus)
    from o assms(3) have big: "0.0001 \<le> sqrt (sphere_disc ?rt)"
      by simp
    have "glm_dot (- ?p) (glm_normalize ?v) \<le> 0"
    proof (cases "?v = 0")
      case True
      then show ?thesis by simp
    next
      case False
      have "glm_dot ?p (direction ?rt) = sqrt (sphere_disc ?rt) - 0.0001"
        using sphere_point_dot_direction [OF dq False] by (simp add: sphere_t1_def)
      with big have "glm_dot (- ?p) (direction ?rt) \<le> 0"
        by (simp add: glm_dot_uminus_left)
      then show ?thesis
        by (simp only: dq)
    qed
    then show ?thesis
      using dot_sign_transfer [OF _ dot_transpose] n by simp
  qed
qed

lemma sphere_tangent_roots:
  "sphere_disc \<lparr>origin = Vec3 (1 / 2) 0 0, direction = Vec3 0 1 0\<rparr> = 0"
  "sphere_t1 \<lparr>origin = Vec3 (1 / 2) 0 0, direction = Vec3 0 1 0\<rparr> = 0"
  "sphere_t2 \<lparr>origin = Vec3 (1 / 2) 0 0, direction = Vec3 0 1 0\<rparr> = 0"
  by (simp_all add: sphere_spec_defs glm_dot_def power2_eq_square)

lemma glm_normalize_unit_y: "glm_normalize (Vec3 0 1 0) = Vec3 0 1 0"
  by (simp add: glm_normalize_def glm_dot_def smul_def)

lemma sphere_tangent_value:
  "sphereIntersectionTest identity_geom ray_tangent out =
     (1 / 10000,
      \<lparr>intersectionPoint = Vec3 (1 / 2) (- (1 / 10000)) 0,
       normal = - glm_normalize (Vec3 (1 / 2) (- (1 / 10000)) 0),
       outside = False\<rparr>)"
  by (simp add: sphere_unfold ray_tangent_def glm_normalize_unit_y sphere_tangent_roots
      getPointOnRay_def smul_def plus_vec3_def minus_vec3_def glm_length_def glm_dot_def
      Let_def)

text \<open>
  Claim C1: every hit of every tester leaves \<open>dot(normal, ray.direction) \<le> 0\<close>. The
  sphere tester does not deliver it for the ray that starts on the sphere of radius 0.5
  at \<open>(0.5, 0, 0)\<close> and runs along the tangent \<open>(0, 1, 0)\<close>: both roots are 0, the hit
  counts as an inside hit, the point is pulled back to \<open>(0.5, -0.0001, 0)\<close>, the normal is
  taken at that point and negated, and the negated normal has a positive component
  along the ray, while the tester returns the distance 0.0001, a hit.
\<close>

theorem sphere_tangent_normal_along_ray:
  "0 \<le> fst (sphereIntersectionTest identity_geom ray_tangent out0) \<and>
   fst (sphereIntersectionTest identity_geom ray_tangent out0) = 0.0001 \<and>
   intersectionPoint (snd (sphereIntersectionTest identity_geom ray_tangent out0)) =
     Vec3 0.5 (- 0.0001) 0 \<and>
   outside (snd (sphereIntersectionTest identity_geom ray_tangent out0)) = False \<and>
   0 < glm_dot (normal (snd (sphereIntersectionTest identity_geom ray_tangent out0)))
         (direction ray_tangent)"
  by (simp add: sphere_tangent_value glm_dot_uminus_left glm_dot_normalize_left)
    (simp add: ray_tangent_def glm_dot_def)

section \<open>The pullback of the hit point\<close>

lemma multiplyMV_affine:
  "multiplyMV m (vec4of (a + smul k v) 1) =
   multiplyMV m (vec4of a 1) + smul k (multiplyMV m (vec4of v 0))"
  by (simp add: multiplyMV_def mat_mul_vec_def vec3of_def vec4of_def smul_def plus_vec3_def
      algebra_simps)

lemma glm_length_smul: "glm_length (smul k w) = \<bar>k\<bar> * glm_length w"
  by (simp add: glm_length_def glm_dot_smul_smul real_sqrt_mult)

lemma minus_add_smul: "a - (a + smul k w) = smul (- k) w"
  by (simp add: smul_def vec3_defs)

text \<open>Distance from the ray origin to the image of the point at parameter \<open>s\<close>, when
  the forward transform takes the object-space origin back to the ray origin.\<close>

lemma distance_along_ray:
  assumes "multiplyMV (transform g) (vec4of (origin (objectRay g r)) 1) = origin r"
  shows "glm_length (origin r - multiplyMV (transform g)
           (vec4of (origin (objectRay g r) +
              smul k (glm_normalize (direction (objectRay g r)))) 1)) =
         \<bar>k\<bar> * glm_length (world_step g r)"
  by (simp add: multiplyMV_affine assms minus_add_smul glm_length_smul world_step_def)

lemma exact_distance_along_ray:
  assumes "multiplyMV (transform g) (vec4of (origin (objectRay g r)) 1) = origin r"
  shows "exact_distance g r t = \<bar>t\<bar> * glm_length (world_step g r)"
  unfolding exact_distance_def surface_point_def
  by (simp only: distance_along_ray [OF assms])

lemma returned_distance_along_ray:
  assumes "multiplyMV (transform g) (vec4of (origin (objectRay g r)) 1) = origin r"
  shows "glm_length (origin r - multiplyMV (transform g)
           (vec4of (getPointOnRay (objectRay g r) t) 1)) =
         \<bar>t - 0.0001\<bar> * glm_length (world_step g r)"
  unfolding getPointOnRay_def
  by (simp only: distance_along_ray [OF assms])

lemma pullback_shortens_iff:
  assumes "multiplyMV (transform g) (vec4of (origin (objectRay g r)) 1) = origin r"
    and "world_step g r \<noteq> 0"
  shows "glm_length (origin r - multiplyMV (transform g)
           (vec4of (getPointOnRay (objectRay g r) t) 1)) < exact_distance g r t \<longleftrightarrow>
         0.00005 < t"
proof -
  have L: "0 < glm_length (world_step g r)"
    using assms(2) glm_length_nonneg [of "world_step g r"] glm_length_zero_iff [of "world_step g r"]
    by simp
  have "\<bar>t - 0.0001\<bar> < \<bar>t\<bar> \<longleftrightarrow> 0.00005 < t"
    by (auto simp add: abs_if)
  then have "\<bar>t - 0.0001\<bar> * glm_length (world_step g r) < \<bar>t\<bar> * glm_length (world_step g r)
      \<longleftrightarrow> 0.00005 < t"
    using L by simp
  then show ?thesis
    by (simp only: returned_distance_along_ray [OF assms(1)]
        exact_distance_along_ray [OF assms(1)])
qed

lemma slab_pass_near_face:
  "slab_pass \<lparr>origin = Vec3 0 0 (49999 / 100000), direction = Vec3 0 0 1\<rparr> =
     \<lparr>tmin = Fin (- (10 ^ 38)), tmax = Fin (1 / 100000),
      tmin_n = Vec3 0 0 0, tmax_n = Vec3 0 0 (- 1)\<rparr>"
  by (simp add: slab_eval)

lemma box_near_face_value:
  "boxIntersectionTest identity_geom ray_near_face out =
     (9 / 100000,
      \<lparr>intersectionPoint = Vec3 0 0 (4999 / 10000), normal = Vec3 0 0 (- 1),
       outside = False\<rparr>)"
  by (simp add: boxIntersectionTest_def ray_near_face_def glm_normalize_unit_z
      slab_pass_near_face getPointOnRay_def smul_def plus_vec3_def minus_vec3_def
      glm_length_axis_z)

lemma box_t_near_face: "box_t identity_geom ray_near_face = 1 / 100000"
  by (simp add: box_t_def ray_near_face_def glm_normalize_unit_z slab_pass_near_face)

lemma exact_distance_near_face:
  "exact_distance identity_geom ray_near_face (1 / 100000) = 1 / 100000"
  by (simp add: exact_distance_def surface_point_def ray_near_face_def glm_normalize_unit_z
      smul_def plus_vec3_def minus_vec3_def glm_length_axis_z)

text \<open>
  Claim C10, as stated: on a hit of the box tester the returned distance is strictly less
  than the exact distance to the surface. For the ray that starts inside the unit box at
  \<open>(0, 0, 0.49999)\<close> and leaves through the face \<open>z = 0.5\<close>, the hit parameter is
  \<open>0.00001\<close>, the point is evaluated at \<open>0.00001 - 0.0001\<close>, behind the origin, and the
  returned distance \<open>0.00009\<close> exceeds the exact distance \<open>0.00001\<close>.
\<close>

theorem box_near_face_distance_not_shorter:
  "0 \<le> fst (boxIntersectionTest identity_geom ray_near_face out0) \<and>
   box_t identity_geom ray_near_face = 0.00001 \<and>
   fst (boxIntersectionTest identity_geom ray_near_face out0) = 0.00009 \<and>
   exact_distance identity_geom ray_near_face (box_t identity_geom ray_near_face) = 0.00001 \<and>
   \<not> fst (boxIntersectionTest identity_geom ray_near_face out0) <
       exact_distance identity_geom ray_near_face (box_t identity_geom ray_near_face)"
  by (simp add: box_near_face_value box_t_near_face exact_distance_near_face)

text \<open>
  Claim C10, amended. On a hit, the box tester and the sphere tester write the image of
  \<^verbatim>\<open>getPointOnRay(q, t)\<close>, the point of the object-space ray at parameter \<open>t - 0.0001\<close>,
  where \<open>t\<close> is the hit parameter. In exact arithmetic, when the forward transform takes
  the object-space origin back to the ray origin, the returned distance is
  \<open>|t - 0.0001| * L\<close> and the exact distance to the surface is \<open>t * L\<close>, with \<open>L\<close> the
  world-space length of the unit object-space direction; so, when \<open>L\<close> is not 0, the
  returned distance is strictly less than the exact one if and only if \<open>t > 0.00005\<close>.
  Rounding is outside the model: in single precision the subtraction \<open>t - 0.0001\<close> can
  return \<open>t\<close> itself (it does from \<open>t = 2048\<close> on), and nothing strict is stated for the
  rounded program. The triangle tester applies no pullback: the point it writes is the
  forward transform of the barycentric combination of the three vertices.
\<close>

theorem pullback_of_hit_point:
  "(0 \<le> fst (boxIntersectionTest g r out) \<longrightarrow>
      intersectionPoint (snd (boxIntersectionTest g r out)) =
        multiplyMV (transform g) (vec4of (getPointOnRay (objectRay g r) (box_t g r)) 1) \<and>
      getPointOnRay (objectRay g r) (box_t g r) =
        surface_point (objectRay g r) (box_t g r - 0.0001)) \<and>
   (0 \<le> fst (boxIntersectionTest g r out) \<and>
      multiplyMV (transform g) (vec4of (origin (objectRay g r)) 1) = origin r \<longrightarrow>
      fst (boxIntersectionTest g r out) =
        \<bar>box_t g r - 0.0001\<bar> * glm_length (world_step g r) \<and>
      exact_distance g r (box_t g r) = box_t g r * glm_length (world_step g r)) \<and>
   (0 \<le> fst (boxIntersectionTest g r out) \<and>
      multiplyMV (transform g) (vec4of (origin (objectRay g r)) 1) = origin r \<and>
      world_step g r \<noteq> 0 \<longrightarrow>
      (fst (boxIntersectionTest g r out) < exact_distance g r (box_t g r) \<longleftrightarrow>
         0.00005 < box_t g r)) \<and>
   (0 \<le> fst (sphereIntersectionTest g r out) \<longrightarrow>
      intersectionPoint (snd (sphereIntersectionTest g r out)) =
        multiplyMV (transform g) (vec4of (getPointOnRay (objectRay g r) (sphere_t g r)) 1) \<and>
      getPointOnRay (objectRay g r) (sphere_t g r) =
        surface_point (objectRay g r) (sphere_t g r - 0.0001)) \<and>
   (0 \<le> fst (sphereIntersectionTest g r out) \<and>
      multiplyMV (transform g) (vec4of (origin (objectRay g r)) 1) = origin r \<longrightarrow>
      fst (sphereIntersectionTest g r out) =
        \<bar>sphere_t g r - 0.0001\<bar> * glm_length (world_step g r) \<and>
      exact_distance g r (sphere_t g r) = sphere_t g r * glm_length (world_step g r)) \<and>
   (0 \<le> fst (sphereIntersectionTest g r out) \<and>
      multiplyMV (transform g) (vec4of (origin (objectRay g r)) 1) = origin r \<and>
      world_step g r \<noteq> 0 \<longrightarrow>
      (fst (sphereIntersectionTest g r out) < exact_distance g r (sphere_t g r) \<longleftrightarrow>
         0.00005 < sphere_t g r)) \<and>
   (irt (origin (objectRay g r)) (direction (objectRay g r)) vertex1 vertex2 vertex3 = Some b \<longrightarrow>
      intersectionPoint (snd (triangleInteractionTest irt g r vertex1 vertex2 vertex3
        normal1 normal2 normal3 out)) =
        multiplyMV (transform g) (vec4of (bary_position b vertex1 vertex2 vertex3) 1))"
proof -
  let ?q = "objectRay g r"
  let ?same_origin = "multiplyMV (transform g) (vec4of (origin ?q) 1) = origin r"
  have pull: "getPointOnRay ?q t = surface_point ?q (t - 0.0001)" for t
    by (simp add: getPointOnRay_def surface_point_def)
  have box1: "intersectionPoint (snd (boxIntersectionTest g r out)) =
      multiplyMV (transform g) (vec4of (getPointOnRay ?q (box_t g r)) 1)"
    if "0 \<le> fst (boxIntersectionTest g r out)"
    using that by (rule box_hit_point(1))
  have box2: "fst (boxIntersectionTest g r out) =
        \<bar>box_t g r - 0.0001\<bar> * glm_length (world_step g r) \<and>
      exact_distance g r (box_t g r) = box_t g r * glm_length (world_step g r)"
    if "0 \<le> fst (boxIntersectionTest g r out)" ?same_origin
    using box_hit_point(2,3) [OF that(1)] returned_distance_along_ray [OF that(2)]
      exact_distance_along_ray [OF that(2), of "box_t g r"]
    by simp
  have box3: "fst (boxIntersectionTest g r out) < exact_distance g r (box_t g r) \<longleftrightarrow>
      0.00005 < box_t g r"
    if "0 \<le> fst (boxIntersectionTest g r out)" ?same_origin "world_step g r \<noteq> 0"
    using box_hit_point(2) [OF that(1)] pullback_shortens_iff [OF that(2,3), of "box_t g r"]
    by simp
  have sph1: "intersectionPoint (snd (sphereIntersectionTest g r out)) =
      multiplyMV (transform g) (vec4of (getPointOnRay ?q (sphere_t g r)) 1)"
    if "0 \<le> fst (sphereIntersectionTest g r out)"
    using that by (rule sphere_hit_point(1))
  have sph2: "fst (sphereIntersectionTest g r out) =
        \<bar>sphere_t g r - 0.0001\<bar> * glm_length (world_step g r) \<and>
      exact_distance g r (sphere_t g r) = sphere_t g r * glm_length (world_step g r)"
    if "0 \<le> fst (sphereIntersectionTest g r out)" ?same_origin
    using sphere_hit_point(2,3) [OF that(1)] returned_distance_along_ray [OF that(2)]
      exact_distance_along_ray [OF that(2), of "sphere_t g r"]
    by simp
  have sph3: "fst (sphereIntersectionTest g r out) < exact_distance g r (sphere_t g r) \<longleftrightarrow>
      0.00005 < sphere_t g r"
    if "0 \<le> fst (sphereIntersectionTest g r out)" ?same_origin "world_step g r \<noteq> 0"
    using sphere_hit_point(2) [OF that(1)]
      pullback_shortens_iff [OF that(2,3), of "sphere_t g r"]
    by simp
  have tri: "intersectionPoint (snd (triangleInteractionTest irt g r vertex1 vertex2 vertex3
        normal1 normal2 normal3 out)) =
        multiplyMV (transform g) (vec4of (bary_position b vertex1 vertex2 vertex3) 1)"
    if "irt (origin ?q) (direction ?q) vertex1 vertex2 vertex3 = Some b"
    using that by (simp add: triangleInteractionTest_def Let_def)
  show ?thesis
    using pull box1 box2 box3 sph1 sph2 sph3 tri by blast
qed

text \<open>The primitive stretched by 2 along \<open>z\<close>, seen from \<open>(0, 0, -4)\<close>: the hit parameter of the
  box and of the sphere is 1.5, \<open>L = 2\<close>, the returned distance is
  \<open>2.9998 = (1.5 - 0.0001) * 2\<close> and the exact distance is 3; the triangle is met at its
  first vertex.\<close>

theorem pullback_of_hit_point_witness:
  "0 \<le> fst (boxIntersectionTest stretched_geom ray_far out0) \<and>
   multiplyMV (transform stretched_geom)
     (vec4of (origin (objectRay stretched_geom ray_far)) 1) = origin ray_far \<and>
   world_step stretched_geom ray_far \<noteq> 0 \<and>
   glm_length (world_step stretched_geom ray_far) = 2 \<and>
   box_t stretched_geom ray_far = 1.5 \<and>
   0.00005 < box_t stretched_geom ray_far \<and>
   fst (boxIntersectionTest stretched_geom ray_far out0) = 2.9998 \<and>
   fst (boxIntersectionTest stretched_geom ray_far out0) =
     \<bar>box_t stretched_geom ray_far - 0.0001\<bar> * glm_length (world_step stretched_geom ray_far) \<and>
   exact_distance stretched_geom ray_far (box_t stretched_geom ray_far) = 3 \<and>
   fst (boxIntersectionTest stretched_geom ray_far out0) <
     exact_distance stretched_geom ray_far (box_t stretched_geom ray_far) \<and>
   0 \<le> fst (sphereIntersectionTest stretched_geom ray_far out0) \<and>
   sphere_t stretched_geom ray_far = 1.5 \<and>
   0.00005 < sphere_t stretched_geom ray_far \<and>
   fst (sphereIntersectionTest stretched_geom ray_far out0) = 2.9998 \<and>
   fst (sphereIntersectionTest stretched_geom ray_far out0) =
     \<bar>sphere_t stretched_geom ray_far - 0.0001\<bar> *
       glm_length (world_step stretched_geom ray_far) \<and>
   exact_distance stretched_geom ray_far (sphere_t stretched_geom ray_far) = 3 \<and>
   fst (sphereIntersectionTest stretched_geom ray_far out0) <
     exact_distance stretched_geom ray_far (sphere_t stretched_geom ray_far) \<and>
   irt_hit (Vec3 0 0 2) (origin (objectRay stretched_geom ray_far))
     (direction (objectRay stretched_geom ray_far)) tri1 tri2 tri3 = Some (Vec3 0 0 2) \<and>
   intersectionPoint (snd (triangleInteractionTest (irt_hit (Vec3 0 0 2)) stretched_geom
     ray_far tri1 tri2 tri3 (Vec3 0 0 2) (Vec3 0 0 3) (Vec3 0 0 4) out0)) =
     multiplyMV (transform stretched_geom)
       (vec4of (bary_position (Vec3 0 0 2) tri1 tri2 tri3) 1) \<and>
   intersectionPoint (snd (triangleInteractionTest (irt_hit (Vec3 0 0 2)) stretched_geom
     ray_far tri1 tri2 tri3 (Vec3 0 0 2) (Vec3 0 0 3) (Vec3 0 0 4) out0)) = Vec3 0 0 0"
proof -
  have a: "0 \<le> fst (boxIntersectionTest stretched_geom ray_far out0)"
    "multiplyMV (transform stretched_geom)
       (vec4of (origin (objectRay stretched_geom ray_far)) 1) = origin ray_far"
    "world_step stretched_geom ray_far \<noteq> 0"
    "glm_length (world_step stretched_geom ray_far) = 2"
    "box_t stretched_geom ray_far = 1.5"
    "0.00005 < box_t stretched_geom ray_far"
    "fst (boxIntersectionTest stretched_geom ray_far out0) = 2.9998"
    "exact_distance stretched_geom ray_far (box_t stretched_geom ray_far) = 3"
    "0 \<le> fst (sphereIntersectionTest stretched_geom ray_far out0)"
    "sphere_t stretched_geom ray_far = 1.5"
    "0.00005 < sphere_t stretched_geom ray_far"
    "fst (sphereIntersectionTest stretched_geom ray_far out0) = 2.9998"
    "exact_distance stretched_geom ray_far (sphere_t stretched_geom ray_far) = 3"
    "intersectionPoint (snd (triangleInteractionTest (irt_hit (Vec3 0 0 2)) stretched_geom
       ray_far tri1 tri2 tri3 (Vec3 0 0 2) (Vec3 0 0 3) (Vec3 0 0 4) out0)) = Vec3 0 0 0"
    by (simp_all add: origin_back_far box_far_value sphere_far_value tri_far_value box_t_far
        sphere_t_far world_step_far exact_distance_far glm_length_axis_z zero_vec3_def)
  have b: "irt_hit (Vec3 0 0 2) (origin (objectRay stretched_geom ray_far))
       (direction (objectRay stretched_geom ray_far)) tri1 tri2 tri3 = Some (Vec3 0 0 2)"
    by (simp add: irt_hit_def)
  show ?thesis
    using a b
      pullback_of_hit_point
        [where g = stretched_geom and r = ray_far and out = out0
          and irt = "irt_hit (Vec3 0 0 2)" and b = "Vec3 0 0 2"
          and ?vertex1.0 = tri1 and ?vertex2.0 = tri2 and ?vertex3.0 = tri3
          and ?normal1.0 = "Vec3 0 0 2" and ?normal2.0 = "Vec3 0 0 3"
          and ?normal3.0 = "Vec3 0 0 4"]
    by blast
qed

end
